theory Spec2Isabelle
  imports Main "HOL-Library.Char_ord" "HOL-Library.List_Lexorder"
begin

section \<open>Data model of the kernel node (OgnKernel.py)\<close>

text \<open>
  Python exceptions are values. An operation that mutates the node database and may raise
  returns an \<open>outcome\<close>: the database as it stands when the exception leaves the function is
  kept, because the caller's handler goes on with that very object.
\<close>

datatype error =
    RuntimeError string
  | AssertionError string
  | AttributeError string
  | TypeError string
  | OSError string
  | KeyError string
  | OtherError string

datatype ('a, 's) outcome = Raise error 's | Return 'a 's

fun outcome_db :: "('a, 's) outcome \<Rightarrow> 's" where
  "outcome_db (Raise e s) = s"
| "outcome_db (Return v s) = s"

fun returned :: "('a, 's) outcome \<Rightarrow> 'a option" where
  "returned (Raise e s) = None"
| "returned (Return v s) = Some v"

fun raised :: "('a, 's) outcome \<Rightarrow> error option" where
  "raised (Raise e s) = Some e"
| "raised (Return v s) = None"

datatype port_type =
    ATTR_PORT_TYPE_INPUT
  | ATTR_PORT_TYPE_OUTPUT
  | ATTR_PORT_TYPE_STATE
  | ATTR_PORT_TYPE_UNKNOWN

text \<open>What the code reads of an \<open>og.Attribute\<close>.\<close>

record Attribute =
  get_type_name :: string
  get_port_type :: port_type
  get_name :: string
  is_dynamic :: bool
  is_optional_for_compute :: bool

text \<open>
  Modelled from the spec: the flag type \<open>UserAttributesEvent\<close> is imported from
  \<open>omni.warp.scripts.kernelnode\<close>, whose source is not part of the files at hand. The spec
  gives it the flags none, added and removed; the code tests \<open>REMOVED & event\<close> and
  \<open>event != NONE\<close>. An event is the set of its raised flags.
\<close>

record UserAttributesEvent =
  CREATED :: bool
  REMOVED :: bool

definition NONE :: UserAttributesEvent where
  "NONE = \<lparr>CREATED = False, REMOVED = False\<rparr>"

datatype ExecutionAttributeState = DISABLED | ENABLED

text \<open>
  A type annotation of a struct member: \<open>isinstance(v, wp.array)\<close> holds for \<open>ArrayAnn\<close>
  only, which carries \<open>dtype\<close> and \<open>ndim\<close>.
\<close>

datatype annotation = ArrayAnn string nat | ScalarAnn string

fun is_wp_array_annotation :: "annotation \<Rightarrow> bool" where
  "is_wp_array_annotation (ArrayAnn d n) = True"
| "is_wp_array_annotation (ScalarAnn t) = False"

text \<open>
  Attribute values. \<open>RawArray p n\<close> is what the graph hands out for an array attribute
  (a numpy array or an \<open>og.DataWrapper\<close>) with data pointer \<open>p\<close> and \<open>n\<close> elements;
  \<open>WarpArray\<close> is a \<open>wp.array\<close>, with \<open>ptr\<close> (0 or None are both falsy, written 0),
  the value of \<open>len()\<close> and the dtype.
\<close>

record warp_array =
  ptr :: nat
  len :: int
  dtype :: string

datatype attr_value = ScalarValue int | RawArray nat int | WarpArray warp_array

record Device =
  is_cpu :: bool
  is_cuda :: bool
  device_alias :: string

datatype py_compute = PlainFunction | Kernel

text \<open>
  What the code reads of the imported Python module: whether it has a member \<open>compute\<close>
  and of which kind, the annotations of \<open>Inputs.cls\<close> and \<open>Outputs.cls\<close> (Python dicts:
  association lists in insertion order), and the module option \<open>enable_backward\<close>.
\<close>

record kernel_module_t =
  mod_name :: string
  compute_attr :: "py_compute option"
  Inputs_cls :: "(string \<times> annotation) list"
  Outputs_cls :: "(string \<times> annotation) list"
  enable_backward :: bool

text \<open>The dict \<open>kernel_annotations\<close>, which has exactly the two keys input and output.\<close>

record kernel_annotations_t =
  annotations_INPUT :: "(string \<times> annotation) list"
  annotations_OUTPUT :: "(string \<times> annotation) list"

record InternalState =
  dim_count :: "int option"
  code_provider :: "string option"
  code_str :: "string option"
  code_file :: "string option"
  code_file_timestamp :: "int option"
  kernel_module :: "kernel_module_t option"
  kernel_annotations :: "kernel_annotations_t option"
  is_valid :: bool

text \<open>\<open>InternalState.__init__\<close>\<close>

definition InternalState_init :: InternalState where
  "InternalState_init =
     \<lparr>dim_count = None, code_provider = None, code_str = None, code_file = None,
      code_file_timestamp = None, kernel_module = None, kernel_annotations = None,
      is_valid = False\<rparr>"

text \<open>
  The node database \<open>db\<close> with the pieces of the surroundings that the node changes:
  the log sink, the memory location of dynamic attributes, the temporary files on disk,
  the names of the modules handed to the importer (one entry per compilation), the
  kernel launches, and the global \<open>wp.config.quiet\<close>.
\<close>

record OgnKernelDatabase =
  inputs_device :: string
  inputs_codeProvider :: string
  inputs_codeStr :: string
  inputs_codeFile :: string
  inputs_dimCount :: int
  inputs_dim :: "nat \<rightharpoonup> int"
  inputs_attrs :: "string \<rightharpoonup> attr_value"
  state_userAttrsEvent :: UserAttributesEvent
  state_userAttrDescs :: string
  node_attributes :: "Attribute list"
  outputs_execOut :: ExecutionAttributeState
  outputs_sizes :: "string \<rightharpoonup> int"
  outputs_attrs :: "string \<rightharpoonup> attr_value"
  internal_state :: InternalState
  logged :: "string list"
  dynamic_attribute_on_gpu :: bool
  tmp_files :: "string \<rightharpoonup> string"
  compilations :: "string list"
  launches :: "(string \<times> int list) list"
  wp_config_quiet :: bool

text \<open>
  What the node calls and does not define: the table \<open>ATTR_TO_WARP_TYPE\<close> and the constant
  \<open>MAX_DIMENSIONS\<close> (imported from a module that is not among the sources), the file
  system, \<open>hashlib.blake2b(..., digest_size=8).hexdigest()\<close>, the Python importer, the
  timeline, and warp's device lookup, array constructors and launch.
\<close>

record env =
  ATTR_TO_WARP_TYPE :: "string \<rightharpoonup> string"
  MAX_DIMENSIONS :: int
  QUIET_DEFAULT :: bool
  deserialize_user_attribute_descs :: "string \<Rightarrow> error option"
  open_read :: "string \<rightharpoonup> string"
  getmtime :: "string \<rightharpoonup> int"
  blake2b_hexdigest :: "string \<Rightarrow> string"
  mkstemp :: "(string \<rightharpoonup> string) \<Rightarrow> string option"
  fdopen_write :: "string \<Rightarrow> string \<Rightarrow> error option"
  exec_module :: "string \<Rightarrow> string \<Rightarrow> error + kernel_module_t"
  timeline_is_stopped :: bool
  get_device :: "string \<rightharpoonup> Device"
  wp_array :: "attr_value \<Rightarrow> string \<Rightarrow> warp_array"
  from_omni_graph :: "attr_value \<Rightarrow> string \<Rightarrow> warp_array"
  wp_launch :: "kernel_module_t \<Rightarrow> int list \<Rightarrow> (string \<rightharpoonup> attr_value)
                  \<Rightarrow> (string \<rightharpoonup> attr_value) \<Rightarrow> error + (string \<rightharpoonup> attr_value)"
  format_exc :: "error \<Rightarrow> string"

section \<open>Schema generation\<close>

definition NL :: char where
  "NL = CHR 0x0A"

definition APOS :: char where
  "APOS = CHR 0x27"

text \<open>\<open>sep.join(xs)\<close>\<close>

fun join :: "string \<Rightarrow> string list \<Rightarrow> string" where
  "join sep [] = []"
| "join sep [x] = x"
| "join sep (x # y # ys) = x @ sep @ join sep (y # ys)"

text \<open>\<open>s.split(":")[-1]\<close>: what follows the last colon, the whole string when there is none.\<close>

definition split_last :: "string \<Rightarrow> string" where
  "split_last s = rev (takeWhile (\<lambda>c. c \<noteq> CHR '':'') (rev s))"

definition HEADER_CODE_TEMPLATE :: "string \<Rightarrow> string \<Rightarrow> string" where
  "HEADER_CODE_TEMPLATE inputs outputs =
     ''import warp as wp'' @ [NL, NL]
     @ ''@wp.struct'' @ [NL]
     @ ''class Inputs:'' @ [NL]
     @ inputs @ [NL]
     @ ''    pass'' @ [NL, NL]
     @ ''@wp.struct'' @ [NL]
     @ ''class Outputs:'' @ [NL]
     @ outputs @ [NL]
     @ ''    pass'' @ [NL]"

text \<open>
  The first loop of \<open>generate_header_code\<close>: \<open>params.setdefault(port, []).append((name, type))\<close>,
  leaving at the first attribute whose type the table does not know.
\<close>

fun header_params ::
  "(string \<rightharpoonup> string) \<Rightarrow> Attribute list \<Rightarrow> (port_type \<rightharpoonup> (string \<times> string) list)
     \<Rightarrow> error + (port_type \<rightharpoonup> (string \<times> string) list)" where
  "header_params tbl [] params = Inr params"
| "header_params tbl (attr # attrs) params =
     (case tbl (get_type_name attr) of
        None \<Rightarrow>
          Inl (RuntimeError (''Unsupported node attribute type '' @ [APOS]
                 @ get_type_name attr @ [APOS] @ ''.''))
      | Some warp_type \<Rightarrow>
          header_params tbl attrs
            (params(get_port_type attr \<mapsto>
               (case params (get_port_type attr) of None \<Rightarrow> [] | Some items \<Rightarrow> items)
               @ [(split_last (get_name attr), warp_type)])))"

definition member_line :: "string \<times> string \<Rightarrow> string" where
  "member_line x = ''    '' @ fst x @ '': '' @ snd x"

definition generate_header_code :: "env \<Rightarrow> Attribute list \<Rightarrow> error + string" where
  "generate_header_code env attrs =
     (case header_params (ATTR_TO_WARP_TYPE env) attrs Map.empty of
        Inl e \<Rightarrow> Inl e
      | Inr params \<Rightarrow>
          (let members = (\<lambda>port_type. map_option (\<lambda>items. join [NL] (map member_line items))
                                         (params port_type))
           in Inr (HEADER_CODE_TEMPLATE
                     (case members ATTR_PORT_TYPE_INPUT of None \<Rightarrow> [] | Some s \<Rightarrow> s)
                     (case members ATTR_PORT_TYPE_OUTPUT of None \<Rightarrow> [] | Some s \<Rightarrow> s))))"

definition get_user_code :: "env \<Rightarrow> OgnKernelDatabase \<Rightarrow> error + string" where
  "get_user_code env db =
     (if inputs_codeProvider db = ''embedded'' then Inr (inputs_codeStr db)
      else if inputs_codeProvider db = ''file'' then
        (case open_read env (inputs_codeFile db) of
           None \<Rightarrow> Inl (OSError (inputs_codeFile db))
         | Some text \<Rightarrow> Inr text)
      else Inl (AssertionError (''Unexpected code provider '' @ [APOS]
                  @ inputs_codeProvider db @ [APOS] @ ''.'')))"

section \<open>Loading the code as a module\<close>

text \<open>
  \<open>load_code_as_module\<close> on the files on disk. \<open>mkstemp\<close> runs before the \<open>try\<close>; the
  body writes the code and imports the file; the \<open>finally\<close> clause removes the file
  whatever the body did (\<open>os.remove\<close> of the file just created is taken to succeed).
\<close>

definition load_code_as_module ::
  "env \<Rightarrow> string \<Rightarrow> string \<Rightarrow> (string \<rightharpoonup> string)
     \<Rightarrow> (error + kernel_module_t) \<times> (string \<rightharpoonup> string)" where
  "load_code_as_module env code name files =
     (case mkstemp env files of
        None \<Rightarrow> (Inl (OSError ''mkstemp''), files)
      | Some file_path \<Rightarrow>
          (let files1 = files(file_path \<mapsto> []);
               body = (case fdopen_write env file_path code of
                         Some e \<Rightarrow> (Inl e, files1)
                       | None \<Rightarrow> (exec_module env code name, files1(file_path \<mapsto> code)))
           in (fst body, (snd body)(file_path := None))))"

section \<open>The staleness tracker: \<open>InternalState\<close>\<close>

text \<open>
  \<open>InternalState.needs_initialization\<close>. It changes nothing; it raises when the modification
  time of the file cannot be read and on a code provider that is neither \<open>embedded\<close> nor
  \<open>file\<close>. The time stamp is read only when the file path is the cached one and
  \<open>check_file_modified_time\<close> holds, as Python's \<open>or\<close> and \<open>and\<close> evaluate.
\<close>

definition needs_initialization :: "env \<Rightarrow> OgnKernelDatabase \<Rightarrow> bool \<Rightarrow> error + bool" where
  "needs_initialization env db check_file_modified_time =
     (let self = internal_state db in
      if (if is_valid self
          then kernel_module self = None \<or> kernel_annotations self = None
               \<or> REMOVED (state_userAttrsEvent db)
          else state_userAttrsEvent db \<noteq> NONE)
      then Inr True
      else if dim_count self \<noteq> Some (inputs_dimCount db) then Inr True
      else if code_provider self \<noteq> Some (inputs_codeProvider db) then Inr True
      else if code_provider self = Some ''embedded'' then
        (if code_str self \<noteq> Some (inputs_codeStr db) then Inr True else Inr False)
      else if code_provider self = Some ''file'' then
        (case code_file self of
           None \<Rightarrow> Inr True
         | Some file \<Rightarrow>
             if file \<noteq> inputs_codeFile db then Inr True
             else if \<not> check_file_modified_time then Inr False
             else (case getmtime env file of
                     None \<Rightarrow> Inl (OSError file)
                   | Some t \<Rightarrow>
                       if code_file_timestamp self \<noteq> Some t then Inr True else Inr False))
      else Inl (AssertionError (''Unexpected code provider '' @ [APOS]
                  @ inputs_codeProvider db @ [APOS] @ ''.'')))"

text \<open>
  The names the assertion of \<open>initialize\<close> compares the annotation keys with:
  \<open>x.get_name().split(":")[-1] for x in attrs if x.get_port_type() == port_type\<close>.
\<close>

definition attr_names :: "Attribute list \<Rightarrow> port_type \<Rightarrow> string list" where
  "attr_names attrs port_type =
     map (\<lambda>x. split_last (get_name x)) (filter (\<lambda>x. get_port_type x = port_type) attrs)"

definition invalid_attrs :: "kernel_annotations_t \<Rightarrow> string list" where
  "invalid_attrs annotations =
     map fst (filter (\<lambda>kv. \<not> is_wp_array_annotation (snd kv)) (annotations_OUTPUT annotations))"

definition log_error :: "string \<Rightarrow> OgnKernelDatabase \<Rightarrow> OgnKernelDatabase" where
  "log_error msg db = db\<lparr>logged := logged db @ [msg]\<rparr>"

text \<open>
  The second half of \<open>InternalState.initialize\<close>, from the comment
  \<open>Validate the module's contents\<close> to the end: the two checks of the entry point, the
  assertion on the member names, the check of the output types, and the store.
\<close>

definition initialize_validate ::
  "Attribute list \<Rightarrow> kernel_module_t \<Rightarrow> OgnKernelDatabase
     \<Rightarrow> (bool, OgnKernelDatabase) outcome" where
  "initialize_validate attrs module db =
     (case compute_attr module of
        None \<Rightarrow>
          Return False
            (log_error (''The code must define a kernel function named '' @ [APOS]
                        @ ''compute'' @ [APOS] @ ''.'') db)
      | Some c \<Rightarrow>
          if c \<noteq> Kernel then
            Return False
              (log_error (''The '' @ [APOS] @ ''compute'' @ [APOS]
                          @ '' function must be decorated with '' @ [APOS] @ ''@wp.kernel''
                          @ [APOS] @ ''.'') db)
          else
            (let annotations = \<lparr>annotations_INPUT = Inputs_cls module,
                                annotations_OUTPUT = Outputs_cls module\<rparr>
             in if \<not> (sort (map fst (annotations_INPUT annotations))
                         = sort (attr_names attrs ATTR_PORT_TYPE_INPUT)
                       \<and> sort (map fst (annotations_OUTPUT annotations))
                         = sort (attr_names attrs ATTR_PORT_TYPE_OUTPUT))
                then Raise (AssertionError []) db
                else if invalid_attrs annotations \<noteq> [] then
                  Return False
                    (log_error (''Output attributes are required to be arrays but ''
                                @ ''the following attributes are not: ''
                                @ join '', '' (invalid_attrs annotations) @ ''.'') db)
                else
                  Return True
                    (db\<lparr>internal_state := (internal_state db)
                          \<lparr>kernel_module := Some (module\<lparr>enable_backward := False\<rparr>),
                           kernel_annotations := Some annotations\<rparr>\<rparr>)))"

text \<open>
  The first half of \<open>InternalState.initialize\<close>, up to the call of
  \<open>load_code_as_module\<close>. The cached parameters are written first; reading the attribute
  descriptions, the schema, the user code and the import may each raise. Every call of
  the loader is one entry of \<open>compilations\<close>.
\<close>

definition initialize_load ::
  "env \<Rightarrow> OgnKernelDatabase \<Rightarrow> (kernel_module_t, OgnKernelDatabase) outcome" where
  "initialize_load env db =
     (let db1 = db\<lparr>internal_state := (internal_state db)
                    \<lparr>dim_count := Some (inputs_dimCount db),
                     code_provider := Some (inputs_codeProvider db),
                     code_str := Some (inputs_codeStr db),
                     code_file := Some (inputs_codeFile db)\<rparr>\<rparr>;
          attrs = filter is_dynamic (node_attributes db1)
      in case deserialize_user_attribute_descs env (state_userAttrDescs db1) of
           Some e \<Rightarrow> Raise e db1
         | None \<Rightarrow>
        (case generate_header_code env attrs of
           Inl e \<Rightarrow> Raise e db1
         | Inr header_code \<Rightarrow>
        (case get_user_code env db1 of
           Inl e \<Rightarrow> Raise e db1
         | Inr user_code \<Rightarrow>
            (let code = header_code @ [NL] @ user_code;
                 module_name = ''warp-kernelnode-'' @ blake2b_hexdigest env code;
                 loaded = load_code_as_module env code module_name (tmp_files db1);
                 db2 = db1\<lparr>tmp_files := snd loaded,
                           compilations := compilations db1 @ [module_name]\<rparr>
             in case fst loaded of
                  Inl e \<Rightarrow> Raise e db2
                | Inr module \<Rightarrow> Return module db2))))"

text \<open>\<open>InternalState.initialize\<close>: the two halves in sequence.\<close>

definition initialize :: "env \<Rightarrow> OgnKernelDatabase \<Rightarrow> (bool, OgnKernelDatabase) outcome" where
  "initialize env db =
     (case initialize_load env db of
        Raise e db2 \<Rightarrow> Raise e db2
      | Return module db2 \<Rightarrow>
          initialize_validate (filter is_dynamic (node_attributes db2)) module db2)"

section \<open>Binding and dispatch\<close>

definition cast_array_to_warp_type ::
  "env \<Rightarrow> attr_value \<Rightarrow> annotation \<Rightarrow> Device \<Rightarrow> error + warp_array" where
  "cast_array_to_warp_type env v warp_annotation device =
     (if is_cpu device then
        (case warp_annotation of
           ScalarAnn t \<Rightarrow> Inl (AttributeError ''dtype'')
         | ArrayAnn d n \<Rightarrow> Inr (wp_array env v d))
      else if is_cuda device then
        (case warp_annotation of
           ScalarAnn t \<Rightarrow> Inl (AttributeError ''dtype'')
         | ArrayAnn d n \<Rightarrow> Inr (from_omni_graph env v d))
      else Inl (AssertionError (''Unexpected device '' @ [APOS] @ device_alias device
                  @ [APOS] @ ''.'')))"

fun are_array_annotations_equal :: "annotation \<Rightarrow> annotation \<Rightarrow> error + bool" where
  "are_array_annotations_equal (ArrayAnn d1 n1) (ArrayAnn d2 n2) = Inr (d1 = d2 \<and> n1 = n2)"
| "are_array_annotations_equal a b = Inl (AssertionError [])"

text \<open>\<open>functools.reduce(operator.mul, dims)\<close>, which raises on an empty sequence.\<close>

definition reduce_mul :: "int list \<Rightarrow> error + int" where
  "reduce_mul dims =
     (case dims of
        [] \<Rightarrow> Inl (TypeError ''reduce() of empty sequence with no initial value'')
      | d # ds \<Rightarrow> Inr (foldl (*) d ds))"

text \<open>
  The first loop of \<open>get_kernel_args\<close>: the members of the \<open>Inputs\<close> struct. The value of
  an attribute the database does not have cannot be read.
\<close>

fun bind_inputs ::
  "env \<Rightarrow> OgnKernelDatabase \<Rightarrow> Device \<Rightarrow> (string \<times> annotation) list
     \<Rightarrow> (string \<rightharpoonup> attr_value) \<Rightarrow> error + (string \<rightharpoonup> attr_value)" where
  "bind_inputs env db device [] inputs = Inr inputs"
| "bind_inputs env db device ((name, warp_annotation) # rest) inputs =
     (case inputs_attrs db name of
        None \<Rightarrow> Inl (AttributeError name)
      | Some v \<Rightarrow>
          if is_wp_array_annotation warp_annotation then
            (case cast_array_to_warp_type env v warp_annotation device of
               Inl e \<Rightarrow> Inl e
             | Inr a \<Rightarrow> bind_inputs env db device rest (inputs(name \<mapsto> WarpArray a)))
          else bind_inputs env db device rest (inputs(name \<mapsto> v)))"

text \<open>
  The size one output array is allocated with (the \<open>if\<close> in the second loop of
  \<open>get_kernel_args\<close>): \<open>inputs_annotations\<close> is \<open>annotations[ATTR_PORT_TYPE_INPUT]\<close> and
  \<open>inputs\<close> the struct the first loop has filled.
\<close>

definition output_size ::
  "(string \<times> annotation) list \<Rightarrow> int list \<Rightarrow> (string \<rightharpoonup> attr_value) \<Rightarrow> string
     \<Rightarrow> annotation \<Rightarrow> error + int" where
  "output_size inputs_annotations dims inputs name warp_annotation =
     (case map_of inputs_annotations name of
        Some (ArrayAnn d n) \<Rightarrow>
          (case are_array_annotations_equal warp_annotation (ArrayAnn d n) of
             Inl e \<Rightarrow> Inl e
           | Inr eq \<Rightarrow>
               if eq then
                 (case inputs name of
                    Some (WarpArray a) \<Rightarrow> Inr (len a)
                  | Some other \<Rightarrow> Inl (TypeError ''len'')
                  | None \<Rightarrow> Inl (AttributeError name))
               else reduce_mul dims)
      | Some (ScalarAnn t) \<Rightarrow> reduce_mul dims
      | None \<Rightarrow> reduce_mul dims)"

text \<open>The second loop of \<open>get_kernel_args\<close>: sizes of the outputs and the \<open>Outputs\<close> struct.\<close>

fun bind_outputs ::
  "env \<Rightarrow> Device \<Rightarrow> (string \<times> annotation) list \<Rightarrow> int list \<Rightarrow> (string \<rightharpoonup> attr_value)
     \<Rightarrow> (string \<times> annotation) list \<Rightarrow> (string \<rightharpoonup> attr_value) \<Rightarrow> OgnKernelDatabase
     \<Rightarrow> (string \<rightharpoonup> attr_value, OgnKernelDatabase) outcome" where
  "bind_outputs env device inputs_annotations dims inputs [] outputs db = Return outputs db"
| "bind_outputs env device inputs_annotations dims inputs ((name, warp_annotation) # rest)
     outputs db =
     (if \<not> is_wp_array_annotation warp_annotation then Raise (AssertionError []) db
      else
        (case output_size inputs_annotations dims inputs name warp_annotation of
           Inl e \<Rightarrow> Raise e db
         | Inr sz \<Rightarrow>
             (let db1 = db\<lparr>outputs_sizes := (outputs_sizes db)(name @ ''_size'' \<mapsto> sz)\<rparr>
              in case outputs_attrs db1 name of
                   None \<Rightarrow> Raise (AttributeError name) db1
                 | Some v \<Rightarrow>
                     (case cast_array_to_warp_type env v warp_annotation device of
                        Inl e \<Rightarrow> Raise e db1
                      | Inr a \<Rightarrow>
                          bind_outputs env device inputs_annotations dims inputs rest
                            (outputs(name \<mapsto> WarpArray a)) db1))))"

text \<open>
  \<open>get_kernel_args\<close>. \<open>module.Inputs()\<close> needs the module; the structs start without
  members.
\<close>

definition get_kernel_args ::
  "env \<Rightarrow> OgnKernelDatabase \<Rightarrow> kernel_module_t option \<Rightarrow> kernel_annotations_t \<Rightarrow> int list
     \<Rightarrow> Device
     \<Rightarrow> ((string \<rightharpoonup> attr_value) \<times> (string \<rightharpoonup> attr_value), OgnKernelDatabase) outcome" where
  "get_kernel_args env db module annotations dims device =
     (case module of
        None \<Rightarrow> Raise (AttributeError ''Inputs'') db
      | Some m \<Rightarrow>
          (case bind_inputs env db device (annotations_INPUT annotations) Map.empty of
             Inl e \<Rightarrow> Raise e db
           | Inr inputs \<Rightarrow>
               (case bind_outputs env device (annotations_INPUT annotations) dims inputs
                       (annotations_OUTPUT annotations) Map.empty db of
                  Raise e db1 \<Rightarrow> Raise e db1
                | Return outputs db1 \<Rightarrow> Return (inputs, outputs) db1)))"

text \<open>The loop of \<open>write_output_attrs\<close> and the function itself.\<close>

fun write_outputs ::
  "(string \<times> annotation) list \<Rightarrow> (string \<rightharpoonup> attr_value) \<Rightarrow> OgnKernelDatabase
     \<Rightarrow> (unit, OgnKernelDatabase) outcome" where
  "write_outputs [] outputs db = Return () db"
| "write_outputs ((name, warp_annotation) # rest) outputs db =
     (if \<not> is_wp_array_annotation warp_annotation then Raise (AssertionError []) db
      else
        (case outputs name of
           None \<Rightarrow> Raise (AttributeError name) db
         | Some v \<Rightarrow>
             write_outputs rest outputs (db\<lparr>outputs_attrs := (outputs_attrs db)(name \<mapsto> v)\<rparr>)))"

definition write_output_attrs ::
  "OgnKernelDatabase \<Rightarrow> kernel_annotations_t \<Rightarrow> (string \<rightharpoonup> attr_value) \<Rightarrow> Device
     \<Rightarrow> (unit, OgnKernelDatabase) outcome" where
  "write_output_attrs db annotations outputs device =
     (if is_cuda device then Return () db
      else write_outputs (annotations_OUTPUT annotations) outputs db)"

text \<open>\<open>og.Controller.attribute(path, db.node)\<close>: the attribute of that name, if any.\<close>

definition Controller_attribute :: "string \<Rightarrow> OgnKernelDatabase \<Rightarrow> Attribute option" where
  "Controller_attribute path db = find (\<lambda>a. get_name a = path) (node_attributes db)"

text \<open>
  The loop of \<open>compute\<close> that refuses empty arrays: \<open>None\<close> when it runs through, the
  exception otherwise.
\<close>

fun check_inputs ::
  "OgnKernelDatabase \<Rightarrow> (string \<rightharpoonup> attr_value) \<Rightarrow> string list \<Rightarrow> error option" where
  "check_inputs db inputs [] = None"
| "check_inputs db inputs (attr_name # rest) =
     (case inputs attr_name of
        None \<Rightarrow> Some (AttributeError attr_name)
      | Some (WarpArray v) \<Rightarrow>
          (case Controller_attribute (''inputs:'' @ attr_name) db of
             None \<Rightarrow> Some (OtherError (''inputs:'' @ attr_name))
           | Some attr \<Rightarrow>
               if \<not> is_optional_for_compute attr \<and> ptr v = 0 then
                 Some (RuntimeError (''Empty value for non-optional attribute '' @ [APOS]
                         @ ''inputs:'' @ attr_name @ [APOS] @ ''.''))
               else check_inputs db inputs rest)
      | Some other \<Rightarrow> check_inputs db inputs rest)"

text \<open>\<open>max(getattr(db.inputs, "dim{}".format(i + 1)), 0) for i in ...\<close>\<close>

fun read_dims :: "(nat \<rightharpoonup> int) \<Rightarrow> nat list \<Rightarrow> error + int list" where
  "read_dims dim [] = Inr []"
| "read_dims dim (i # rest) =
     (case dim (i + 1) of
        None \<Rightarrow> Inl (AttributeError ''dim'')
      | Some v \<Rightarrow>
          (case read_dims dim rest of
             Inl e \<Rightarrow> Inl e
           | Inr vs \<Rightarrow> Inr (max v 0 # vs)))"

text \<open>
  \<open>compute\<close> from the comment \<open>Exit early if there are no outputs\<close> on: the shape, the
  arguments, the check of the inputs, the launch and the write-back.
\<close>

definition compute_dispatch ::
  "env \<Rightarrow> OgnKernelDatabase \<Rightarrow> Device \<Rightarrow> (unit, OgnKernelDatabase) outcome" where
  "compute_dispatch env db device =
     (case kernel_annotations (internal_state db) of
        None \<Rightarrow> Raise (TypeError ''NoneType object is not subscriptable'') db
      | Some annotations \<Rightarrow>
          if annotations_OUTPUT annotations = [] then Return () db
          else
            (let dim_count = min (max (inputs_dimCount db) 1) (MAX_DIMENSIONS env)
             in case read_dims (inputs_dim db) [0 ..< nat dim_count] of
                  Inl e \<Rightarrow> Raise e db
                | Inr dims \<Rightarrow>
               (case get_kernel_args env db (kernel_module (internal_state db)) annotations
                       dims device of
                  Raise e db1 \<Rightarrow> Raise e db1
                | Return args db1 \<Rightarrow>
               (case check_inputs db1 (fst args) (map fst (annotations_INPUT annotations)) of
                  Some e \<Rightarrow> Raise e db1
                | None \<Rightarrow>
               (case kernel_module (internal_state db1) of
                  None \<Rightarrow> Raise (AttributeError ''compute'') db1
                | Some m \<Rightarrow>
                    (let db2 = db1\<lparr>launches := launches db1 @ [(mod_name m, dims)]\<rparr>
                     in case wp_launch env m dims (fst args) (snd args) of
                          Inl e \<Rightarrow> Raise e db2
                        | Inr outputs \<Rightarrow> write_output_attrs db2 annotations outputs device))))))"

text \<open>
  \<open>compute\<close>: the memory location of the dynamic attributes, then the staleness tracker;
  a failed \<open>initialize\<close> returns at once, a successful one sets \<open>is_valid\<close>.
\<close>

definition compute ::
  "env \<Rightarrow> OgnKernelDatabase \<Rightarrow> Device \<Rightarrow> (unit, OgnKernelDatabase) outcome" where
  "compute env db device =
     (let db0 = db\<lparr>dynamic_attribute_on_gpu := is_cuda device\<rparr>
      in case needs_initialization env db0 (timeline_is_stopped env) of
           Inl e \<Rightarrow> Raise e db0
         | Inr need \<Rightarrow>
             if need then
               (case initialize env db0 of
                  Raise e db1 \<Rightarrow> Raise e db1
                | Return ok db1 \<Rightarrow>
                    if \<not> ok then Return () db1
                    else compute_dispatch env
                           (db1\<lparr>internal_state := (internal_state db1)\<lparr>is_valid := True\<rparr>\<rparr>)
                           device)
             else compute_dispatch env db0 device)"

section \<open>The node entry point\<close>

text \<open>
  The first \<open>try\<close> of \<open>OgnKernel.compute\<close>: the device of the node, or \<open>cuda:0\<close> when that
  lookup raises; the lookup of the fallback is not guarded.
\<close>

definition resolve_device :: "env \<Rightarrow> OgnKernelDatabase \<Rightarrow> error + Device" where
  "resolve_device env db =
     (case get_device env (inputs_device db) of
        Some d \<Rightarrow> Inr d
      | None \<Rightarrow>
          (case get_device env ''cuda:0'' of
             Some d \<Rightarrow> Inr d
           | None \<Rightarrow> Inl (KeyError ''cuda:0'')))"

text \<open>
  \<open>OgnKernel.compute\<close>. Every exception of the inner \<open>compute\<close> is caught: the state is
  marked invalid, the traceback logged, and the function returns before the event is
  reset and the execution output is fired.
\<close>

definition OgnKernel_compute ::
  "env \<Rightarrow> OgnKernelDatabase \<Rightarrow> (unit, OgnKernelDatabase) outcome" where
  "OgnKernel_compute env db =
     (case resolve_device env db of
        Inl e \<Rightarrow> Raise e db
      | Inr device \<Rightarrow>
          (case compute env db device of
             Raise e db1 \<Rightarrow>
               Return ()
                 ((log_error (format_exc env e)
                     (db1\<lparr>internal_state := (internal_state db1)\<lparr>is_valid := False\<rparr>\<rparr>))
                  \<lparr>wp_config_quiet := True\<rparr>)
           | Return u db1 \<Rightarrow>
               Return ()
                 (db1\<lparr>wp_config_quiet := QUIET_DEFAULT env,
                      state_userAttrsEvent := NONE,
                      outputs_execOut := ENABLED\<rparr>)))"

section \<open>Concrete nodes\<close>

text \<open>
  User codes: a kernel \<open>compute\<close> that does nothing; the same kernel under the name
  \<open>run\<close>; a code that does not parse; and a code that declares its own \<open>Inputs\<close>
  struct, with a member \<open>x\<close>, before the kernel.
\<close>

definition kernel_code :: string where
  "kernel_code =
     ''@wp.kernel'' @ [NL]
     @ ''def compute(inputs: Inputs, outputs: Outputs):'' @ [NL]
     @ ''    pass'' @ [NL]"

definition no_compute_code :: string where
  "no_compute_code =
     ''@wp.kernel'' @ [NL]
     @ ''def run(inputs: Inputs, outputs: Outputs):'' @ [NL]
     @ ''    pass'' @ [NL]"

definition broken_code :: string where
  "broken_code = ''def compute(:'' @ [NL]"

definition own_inputs_code :: string where
  "own_inputs_code =
     ''@wp.struct'' @ [NL]
     @ ''class Inputs:'' @ [NL]
     @ ''    x: wp.array(dtype=wp.float32)'' @ [NL, NL]
     @ kernel_code"

text \<open>
  The schema of a node with the input array \<open>a\<close> and the output array \<open>b\<close>, and of a node
  with the outputs \<open>x\<close>, \<open>z\<close>, \<open>y\<close>, of which \<open>x\<close> and \<open>y\<close> are scalars.
\<close>

definition header_ab :: string where
  "header_ab =
     HEADER_CODE_TEMPLATE ''    a: wp.array(dtype=wp.float32)'' ''    b: wp.array(dtype=wp.float32)''"

definition header_xzy :: string where
  "header_xzy =
     HEADER_CODE_TEMPLATE []
       (''    x: wp.float32'' @ [NL] @ ''    z: wp.array(dtype=wp.float32)'' @ [NL]
        @ ''    y: wp.float32'')"

text \<open>
  What Python and warp make of these texts: the members of the structs with their
  annotations, and \<open>compute\<close> if the code defines it. A struct declared again replaces
  the generated one. Any other text is taken not to parse.
\<close>

definition python_module ::
  "string \<Rightarrow> py_compute option \<Rightarrow> (string \<times> annotation) list \<Rightarrow> (string \<times> annotation) list
     \<Rightarrow> kernel_module_t" where
  "python_module name c ins outs =
     \<lparr>mod_name = name, compute_attr = c, Inputs_cls = ins, Outputs_cls = outs,
      enable_backward = True\<rparr>"

definition example_importer :: "string \<Rightarrow> string \<Rightarrow> error + kernel_module_t" where
  "example_importer code name =
     (if code = header_ab @ [NL] @ kernel_code then
        Inr (python_module name (Some Kernel)
               [(''a'', ArrayAnn ''float32'' 1)] [(''b'', ArrayAnn ''float32'' 1)])
      else if code = header_ab @ [NL] @ no_compute_code then
        Inr (python_module name None
               [(''a'', ArrayAnn ''float32'' 1)] [(''b'', ArrayAnn ''float32'' 1)])
      else if code = header_ab @ [NL] @ own_inputs_code then
        Inr (python_module name (Some Kernel)
               [(''x'', ArrayAnn ''float32'' 1)] [(''b'', ArrayAnn ''float32'' 1)])
      else if code = header_xzy @ [NL] @ kernel_code then
        Inr (python_module name (Some Kernel) []
               [(''x'', ScalarAnn ''float32''), (''z'', ArrayAnn ''float32'' 1),
                (''y'', ScalarAnn ''float32'')])
      else Inl (OtherError ''SyntaxError: invalid syntax''))"

text \<open>
  The 8-byte BLAKE2b digests of the texts the examples compile, in hexadecimal; the
  value for any other text stands for a digest that no example reads.
\<close>

definition example_digest :: "string \<Rightarrow> string" where
  "example_digest text =
     (if text = header_ab @ [NL] @ kernel_code then ''851d3303e48d4c2e''
      else if text = header_ab @ [NL] @ no_compute_code then ''adc61b6f457fefb6''
      else if text = header_ab @ [NL] @ broken_code then ''e5e25096e9cc8eee''
      else if text = header_ab @ [NL] @ own_inputs_code then ''e3e289ec6136838a''
      else if text = header_xzy @ [NL] @ kernel_code then ''548397ce61857638''
      else ''0000000000000000'')"

text \<open>
  Surroundings in which every other call succeeds: two devices, the kernel code in the
  file \<open>kernel.py\<close>, the timeline stopped, arrays wrapped as they are, a launch that
  leaves the outputs as they are.
\<close>

definition cpu :: Device where
  "cpu = \<lparr>is_cpu = True, is_cuda = False, device_alias = ''cpu''\<rparr>"

definition cuda0 :: Device where
  "cuda0 = \<lparr>is_cpu = False, is_cuda = True, device_alias = ''cuda:0''\<rparr>"

definition wrap_array :: "attr_value \<Rightarrow> string \<Rightarrow> warp_array" where
  "wrap_array v d =
     (case v of
        RawArray p n \<Rightarrow> \<lparr>ptr = p, len = n, dtype = d\<rparr>
      | WarpArray a \<Rightarrow> a
      | ScalarValue i \<Rightarrow> \<lparr>ptr = 0, len = 0, dtype = d\<rparr>)"

definition example_env :: env where
  "example_env =
     \<lparr>ATTR_TO_WARP_TYPE = [''float[]'' \<mapsto> ''wp.array(dtype=wp.float32)'',
                            ''float'' \<mapsto> ''wp.float32''],
      MAX_DIMENSIONS = 4,
      QUIET_DEFAULT = False,
      deserialize_user_attribute_descs = (\<lambda>s. None),
      open_read = [''kernel.py'' \<mapsto> kernel_code],
      getmtime = [''kernel.py'' \<mapsto> 1700000000],
      blake2b_hexdigest = example_digest,
      mkstemp = (\<lambda>files. Some ''/tmp/tmpq1w2e3.py''),
      fdopen_write = (\<lambda>file_path code. None),
      exec_module = example_importer,
      timeline_is_stopped = True,
      get_device = [''cpu'' \<mapsto> cpu, ''cuda:0'' \<mapsto> cuda0],
      wp_array = wrap_array,
      from_omni_graph = wrap_array,
      wp_launch = (\<lambda>m dims inputs outputs. Inr outputs),
      format_exc = (\<lambda>e. ''Traceback (most recent call last)'')\<rparr>"

text \<open>
  A fresh node with the input array \<open>a\<close> of 4 elements and the output array \<open>b\<close>: the
  kernel code embedded, one dimension of extent 4, no event.
\<close>

definition attr_a :: Attribute where
  "attr_a = \<lparr>get_type_name = ''float[]'', get_port_type = ATTR_PORT_TYPE_INPUT,
             get_name = ''inputs:a'', is_dynamic = True, is_optional_for_compute = False\<rparr>"

definition attr_b :: Attribute where
  "attr_b = \<lparr>get_type_name = ''float[]'', get_port_type = ATTR_PORT_TYPE_OUTPUT,
             get_name = ''outputs:b'', is_dynamic = True, is_optional_for_compute = False\<rparr>"

definition fresh_db :: OgnKernelDatabase where
  "fresh_db =
     \<lparr>inputs_device = ''cpu'',
      inputs_codeProvider = ''embedded'',
      inputs_codeStr = kernel_code,
      inputs_codeFile = ''kernel.py'',
      inputs_dimCount = 1,
      inputs_dim = [1 \<mapsto> 4, 2 \<mapsto> 1, 3 \<mapsto> 1, 4 \<mapsto> 1],
      inputs_attrs = [''a'' \<mapsto> RawArray 4096 4],
      state_userAttrsEvent = NONE,
      state_userAttrDescs = ''[]'',
      node_attributes = [attr_a, attr_b],
      outputs_execOut = DISABLED,
      outputs_sizes = Map.empty,
      outputs_attrs = [''b'' \<mapsto> RawArray 8192 0],
      internal_state = InternalState_init,
      logged = [],
      dynamic_attribute_on_gpu = False,
      tmp_files = Map.empty,
      compilations = [],
      launches = [],
      wp_config_quiet = False\<rparr>"

text \<open>
  The database after the first half of \<open>initialize\<close> has compiled the code of the node
  under the given name.
\<close>

definition loaded :: "OgnKernelDatabase \<Rightarrow> string \<Rightarrow> OgnKernelDatabase" where
  "loaded db name =
     db\<lparr>internal_state := (internal_state db)
           \<lparr>dim_count := Some (inputs_dimCount db),
            code_provider := Some (inputs_codeProvider db),
            code_str := Some (inputs_codeStr db),
            code_file := Some (inputs_codeFile db)\<rparr>,
        tmp_files := Map.empty,
        compilations := compilations db @ [name]\<rparr>"

text \<open>The module and the state of the fresh node after a successful compilation.\<close>

definition stored_module :: kernel_module_t where
  "stored_module =
     \<lparr>mod_name = ''warp-kernelnode-851d3303e48d4c2e'', compute_attr = Some Kernel,
      Inputs_cls = [(''a'', ArrayAnn ''float32'' 1)],
      Outputs_cls = [(''b'', ArrayAnn ''float32'' 1)],
      enable_backward = False\<rparr>"

definition valid_state :: InternalState where
  "valid_state =
     \<lparr>dim_count = Some 1, code_provider = Some ''embedded'',
      code_str = Some kernel_code,
      code_file = Some ''kernel.py'', code_file_timestamp = None,
      kernel_module = Some stored_module,
      kernel_annotations = Some \<lparr>annotations_INPUT = [(''a'', ArrayAnn ''float32'' 1)],
                                  annotations_OUTPUT = [(''b'', ArrayAnn ''float32'' 1)]\<rparr>,
      is_valid = True\<rparr>"

definition valid_db :: OgnKernelDatabase where
  "valid_db = fresh_db\<lparr>internal_state := valid_state\<rparr>"

text \<open>
  The valid node after an attribute was added, and after another attribute was removed;
  after the removal with the code edited so that it defines no \<open>compute\<close>, and with the
  code edited so that it does not parse.
\<close>

definition added_db :: OgnKernelDatabase where
  "added_db = valid_db\<lparr>state_userAttrsEvent := \<lparr>CREATED = True, REMOVED = False\<rparr>\<rparr>"

definition removed_db :: OgnKernelDatabase where
  "removed_db = valid_db\<lparr>state_userAttrsEvent := \<lparr>CREATED = False, REMOVED = True\<rparr>\<rparr>"

definition edited_db :: OgnKernelDatabase where
  "edited_db = removed_db\<lparr>inputs_codeStr := no_compute_code\<rparr>"

definition broken_db :: OgnKernelDatabase where
  "broken_db = removed_db\<lparr>inputs_codeStr := broken_code\<rparr>"

text \<open>The valid node with its code in the file \<open>kernel.py\<close>, and the fresh one.\<close>

definition valid_file_db :: OgnKernelDatabase where
  "valid_file_db =
     valid_db\<lparr>inputs_codeProvider := ''file'',
              internal_state := valid_state\<lparr>code_provider := Some ''file''\<rparr>\<rparr>"

definition fresh_file_db :: OgnKernelDatabase where
  "fresh_file_db = fresh_db\<lparr>inputs_codeProvider := ''file''\<rparr>"

text \<open>
  The fresh node whose code declares its own \<open>Inputs\<close>, and the module of that code; a
  fresh node with the outputs \<open>x\<close>, \<open>z\<close>, \<open>y\<close>, and its module.
\<close>

definition own_inputs_db :: OgnKernelDatabase where
  "own_inputs_db = fresh_db\<lparr>inputs_codeStr := own_inputs_code\<rparr>"

definition own_inputs_module :: kernel_module_t where
  "own_inputs_module =
     python_module ''warp-kernelnode-e3e289ec6136838a'' (Some Kernel)
       [(''x'', ArrayAnn ''float32'' 1)] [(''b'', ArrayAnn ''float32'' 1)]"

definition output_attr :: "string \<Rightarrow> string \<Rightarrow> Attribute" where
  "output_attr name type_name =
     \<lparr>get_type_name = type_name, get_port_type = ATTR_PORT_TYPE_OUTPUT,
      get_name = ''outputs:'' @ name, is_dynamic = True, is_optional_for_compute = False\<rparr>"

definition scalar_outputs_db :: OgnKernelDatabase where
  "scalar_outputs_db =
     fresh_db\<lparr>node_attributes :=
       [output_attr ''x'' ''float'', output_attr ''z'' ''float[]'', output_attr ''y'' ''float'']\<rparr>"

definition scalar_outputs_module :: kernel_module_t where
  "scalar_outputs_module =
     python_module ''warp-kernelnode-548397ce61857638'' (Some Kernel) []
       [(''x'', ScalarAnn ''float32''), (''z'', ArrayAnn ''float32'' 1),
        (''y'', ScalarAnn ''float32'')]"

text \<open>
  The valid node with an output named \<open>a\<close> like its input; with a module that declares
  no outputs; and, after an attribute was added, with an empty array as input \<open>a\<close>.
\<close>

definition same_name_db :: OgnKernelDatabase where
  "same_name_db = valid_db\<lparr>outputs_attrs := [''a'' \<mapsto> RawArray 8192 0]\<rparr>"

definition no_outputs_db :: OgnKernelDatabase where
  "no_outputs_db =
     valid_db\<lparr>node_attributes := [attr_a],
              internal_state := valid_state
                \<lparr>kernel_annotations :=
                   Some \<lparr>annotations_INPUT = [(''a'', ArrayAnn ''float32'' 1)],
                         annotations_OUTPUT = []\<rparr>\<rparr>\<rparr>"

definition empty_input_db :: OgnKernelDatabase where
  "empty_input_db = added_db\<lparr>inputs_attrs := [''a'' \<mapsto> RawArray 0 0]\<rparr>"

text \<open>
  The valid node after another attribute was removed, its code unchanged, with an empty
  array as input \<open>a\<close>.
\<close>

definition removed_empty_input_db :: OgnKernelDatabase where
  "removed_empty_input_db = removed_db\<lparr>inputs_attrs := [''a'' \<mapsto> RawArray 0 0]\<rparr>"

text \<open>
  A machine without any CUDA device, and the valid node, after an attribute was added,
  as authored on a machine with a second one.
\<close>

definition cpu_only_env :: env where
  "cpu_only_env = example_env\<lparr>get_device := [''cpu'' \<mapsto> cpu]\<rparr>"

definition cuda1_db :: OgnKernelDatabase where
  "cuda1_db = added_db\<lparr>inputs_device := ''cuda:1''\<rparr>"

section \<open>What each step leaves alone\<close>

text \<open>
  A function \<open>g\<close> of the database that does not look at the fields a step writes has the
  same value after the step, however the step ends. With \<open>g\<close> a field, or a field of
  the internal state, these lemmas give every frame property used below.
\<close>

lemma outcome_db_rewrap:
  "outcome_db (case r of Raise e d \<Rightarrow> Raise e d | Return v d \<Rightarrow> Return (f v) d) = outcome_db r"
  by (cases r) simp_all

lemma bind_outputs_preserves:
  assumes "\<And>d s. g (d\<lparr>outputs_sizes := s\<rparr>) = g d"
  shows "g (outcome_db (bind_outputs env device ia dims inputs oa outputs db)) = g db"
proof (induction oa arbitrary: outputs db)
  case Nil
  then show ?case by simp
next
  case (Cons a oa)
  obtain name ann where a: "a = (name, ann)" by (cases a)
  show ?case
    unfolding a by (simp add: Let_def Cons.IH assms split: sum.splits option.splits)
qed

lemma write_outputs_preserves:
  assumes "\<And>d s. g (d\<lparr>outputs_attrs := s\<rparr>) = g d"
  shows "g (outcome_db (write_outputs oa outputs db)) = g db"
proof (induction oa arbitrary: db)
  case Nil
  then show ?case by simp
next
  case (Cons a oa)
  obtain name ann where a: "a = (name, ann)" by (cases a)
  show ?case
    unfolding a by (simp add: Let_def Cons.IH assms split: sum.splits option.splits)
qed

lemma get_kernel_args_preserves:
  assumes "\<And>d s. g (d\<lparr>outputs_sizes := s\<rparr>) = g d"
  shows "g (outcome_db (get_kernel_args env db module annotations dims device)) = g db"
  by (simp add: get_kernel_args_def bind_outputs_preserves[of g, OF assms] outcome_db_rewrap
           split: option.splits sum.splits)

lemma write_output_attrs_preserves:
  assumes "\<And>d s. g (d\<lparr>outputs_attrs := s\<rparr>) = g d"
  shows "g (outcome_db (write_output_attrs db annotations outputs device)) = g db"
  by (simp add: write_output_attrs_def write_outputs_preserves[of g, OF assms])

lemma compute_dispatch_preserves:
  assumes sizes: "\<And>d s. g (d\<lparr>outputs_sizes := s\<rparr>) = g d"
      and attrs: "\<And>d s. g (d\<lparr>outputs_attrs := s\<rparr>) = g d"
      and launches: "\<And>d s. g (d\<lparr>launches := s\<rparr>) = g d"
  shows "g (outcome_db (compute_dispatch env db device)) = g db"
proof -
  have gk: "g (outcome_db (get_kernel_args env db m a dims device)) = g db" for m a dims
    by (rule get_kernel_args_preserves[of g, OF sizes])
  have gkR: "get_kernel_args env db m a dims device = Raise e d1 \<Longrightarrow> g d1 = g db"
    for m a dims e d1
    using gk[of m a dims] by simp
  have gkT: "get_kernel_args env db m a dims device = Return args d1 \<Longrightarrow> g d1 = g db"
    for m a dims args d1
    using gk[of m a dims] by simp
  have wo: "g (outcome_db (write_output_attrs d a outs device)) = g d" for d a outs
    by (rule write_output_attrs_preserves[of g, OF attrs])
  show ?thesis
    by (auto simp: compute_dispatch_def Let_def wo launches
             split: option.splits sum.splits outcome.splits dest: gkR gkT)
qed

lemma initialize_load_preserves:
  assumes "\<And>d s. g (d\<lparr>internal_state := s\<rparr>) = g d"
      and "\<And>d s. g (d\<lparr>tmp_files := s\<rparr>) = g d"
      and "\<And>d s. g (d\<lparr>compilations := s\<rparr>) = g d"
  shows "g (outcome_db (initialize_load env db)) = g db"
  by (simp add: initialize_load_def Let_def assms split: option.splits sum.splits)

lemma initialize_validate_preserves:
  assumes "\<And>d s. g (d\<lparr>internal_state := s\<rparr>) = g d"
      and "\<And>d s. g (d\<lparr>logged := s\<rparr>) = g d"
  shows "g (outcome_db (initialize_validate attrs m db)) = g db"
  by (simp add: initialize_validate_def log_error_def Let_def assms
           split: option.splits sum.splits)

lemma initialize_preserves:
  assumes st: "\<And>d s. g (d\<lparr>internal_state := s\<rparr>) = g d"
      and tf: "\<And>d s. g (d\<lparr>tmp_files := s\<rparr>) = g d"
      and co: "\<And>d s. g (d\<lparr>compilations := s\<rparr>) = g d"
      and lg: "\<And>d s. g (d\<lparr>logged := s\<rparr>) = g d"
  shows "g (outcome_db (initialize env db)) = g db"
proof (cases "initialize_load env db")
  case (Raise e d)
  then show ?thesis
    using initialize_load_preserves[of g env db, OF st tf co] by (simp add: initialize_def)
next
  case (Return m d)
  then show ?thesis
    using initialize_load_preserves[of g env db, OF st tf co]
          initialize_validate_preserves[of g "filter is_dynamic (node_attributes d)" m d,
            OF st lg]
    by (simp add: initialize_def)
qed

lemma compute_preserves:
  assumes st: "\<And>d s. g (d\<lparr>internal_state := s\<rparr>) = g d"
      and tf: "\<And>d s. g (d\<lparr>tmp_files := s\<rparr>) = g d"
      and co: "\<And>d s. g (d\<lparr>compilations := s\<rparr>) = g d"
      and lg: "\<And>d s. g (d\<lparr>logged := s\<rparr>) = g d"
      and sizes: "\<And>d s. g (d\<lparr>outputs_sizes := s\<rparr>) = g d"
      and attrs: "\<And>d s. g (d\<lparr>outputs_attrs := s\<rparr>) = g d"
      and launches: "\<And>d s. g (d\<lparr>launches := s\<rparr>) = g d"
      and gpu: "\<And>d s. g (d\<lparr>dynamic_attribute_on_gpu := s\<rparr>) = g d"
  shows "g (outcome_db (compute env db device)) = g db"
proof -
  let ?db0 = "db\<lparr>dynamic_attribute_on_gpu := is_cuda device\<rparr>"
  have cd: "g (outcome_db (compute_dispatch env d device)) = g d" for d
    by (rule compute_dispatch_preserves[of g, OF sizes attrs launches])
  have ini: "g (outcome_db (initialize env ?db0)) = g db"
    using initialize_preserves[of g env ?db0, OF st tf co lg] by (simp add: gpu)
  show ?thesis
  proof (cases "initialize env ?db0")
    case (Raise e d)
    then show ?thesis using ini
      by (simp add: compute_def Let_def cd gpu split: sum.splits)
  next
    case (Return ok d)
    then show ?thesis using ini
      by (simp add: compute_def Let_def cd gpu st split: sum.splits)
  qed
qed

section \<open>The loader and its temporary file\<close>

text \<open>
  C7. Whatever \<open>load_code_as_module\<close> returns, the module or any exception of the write
  or of the import, the file that \<open>mkstemp\<close> created is gone from the disk when the
  function is left, and no other file has changed; when \<open>mkstemp\<close> itself raises, no
  file was created.
\<close>

theorem load_code_as_module_removes_file:
  "snd (load_code_as_module env code name files) =
     (case mkstemp env files of
        None \<Rightarrow> files
      | Some file_path \<Rightarrow> files(file_path := None))"
  by (simp add: load_code_as_module_def Let_def split: option.splits)

section \<open>When the tracker asks for a compilation\<close>

text \<open>
  In a valid state that holds a module and its annotations, and whose cached dimension
  count, code provider, and code text (embedded) or file path and time stamp (file) are
  those of the call, \<open>needs_initialization\<close> asks for a compilation exactly when the
  event has the removed flag: an event with the removed flag always does, an event with
  only the added flag, or none, does not.
\<close>

lemma needs_initialization_valid_iff_removed:
  assumes "is_valid (internal_state db)"
      and "kernel_module (internal_state db) \<noteq> None"
      and "kernel_annotations (internal_state db) \<noteq> None"
      and "dim_count (internal_state db) = Some (inputs_dimCount db)"
      and "code_provider (internal_state db) = Some (inputs_codeProvider db)"
      and "inputs_codeProvider db = ''embedded''
             \<and> code_str (internal_state db) = Some (inputs_codeStr db)
           \<or> inputs_codeProvider db = ''file''
             \<and> code_file (internal_state db) = Some (inputs_codeFile db)
             \<and> (check_file_modified_time \<longrightarrow>
                  getmtime env (inputs_codeFile db) \<noteq> None
                  \<and> code_file_timestamp (internal_state db) = getmtime env (inputs_codeFile db))"
  shows "needs_initialization env db check_file_modified_time
           = Inr (REMOVED (state_userAttrsEvent db))"
  using assms by (auto simp: needs_initialization_def Let_def split: option.splits)

lemmas example_defs =
  kernel_code_def no_compute_code_def broken_code_def own_inputs_code_def header_ab_def
  header_xzy_def python_module_def example_importer_def example_digest_def cpu_def cuda0_def
  wrap_array_def example_env_def attr_a_def attr_b_def fresh_db_def loaded_def
  stored_module_def valid_state_def valid_db_def added_db_def removed_db_def edited_db_def
  broken_db_def valid_file_db_def fresh_file_db_def own_inputs_db_def own_inputs_module_def
  output_attr_def scalar_outputs_db_def scalar_outputs_module_def same_name_db_def
  no_outputs_db_def empty_input_db_def removed_empty_input_db_def cpu_only_env_def
  cuda1_db_def
  InternalState_init_def NONE_def NL_def

text \<open>
  The valid node with embedded code: an added attribute asks for no compilation, a removed
  one does; and the node with its code in a file, while the timeline plays.
\<close>

lemma needs_initialization_valid_iff_removed_examples:
  "is_valid (internal_state added_db)
   \<and> needs_initialization example_env added_db True = Inr False
   \<and> REMOVED (state_userAttrsEvent removed_db)
   \<and> needs_initialization example_env removed_db True = Inr True
   \<and> inputs_codeProvider valid_file_db = ''file''
   \<and> needs_initialization example_env valid_file_db False = Inr False"
proof -
  have a: "is_valid (internal_state added_db)"
          "kernel_module (internal_state added_db) \<noteq> None"
          "kernel_annotations (internal_state added_db) \<noteq> None"
          "dim_count (internal_state added_db) = Some (inputs_dimCount added_db)"
          "code_provider (internal_state added_db) = Some (inputs_codeProvider added_db)"
          "inputs_codeProvider added_db = ''embedded''"
          "code_str (internal_state added_db) = Some (inputs_codeStr added_db)"
          "\<not> REMOVED (state_userAttrsEvent added_db)"
    by (simp_all add: example_defs)
  have r: "is_valid (internal_state removed_db)"
          "kernel_module (internal_state removed_db) \<noteq> None"
          "kernel_annotations (internal_state removed_db) \<noteq> None"
          "dim_count (internal_state removed_db) = Some (inputs_dimCount removed_db)"
          "code_provider (internal_state removed_db) = Some (inputs_codeProvider removed_db)"
          "inputs_codeProvider removed_db = ''embedded''"
          "code_str (internal_state removed_db) = Some (inputs_codeStr removed_db)"
          "REMOVED (state_userAttrsEvent removed_db)"
    by (simp_all add: example_defs)
  have f: "is_valid (internal_state valid_file_db)"
          "kernel_module (internal_state valid_file_db) \<noteq> None"
          "kernel_annotations (internal_state valid_file_db) \<noteq> None"
          "dim_count (internal_state valid_file_db) = Some (inputs_dimCount valid_file_db)"
          "code_provider (internal_state valid_file_db) = Some (inputs_codeProvider valid_file_db)"
          "inputs_codeProvider valid_file_db = ''file''"
          "code_file (internal_state valid_file_db) = Some (inputs_codeFile valid_file_db)"
          "\<not> REMOVED (state_userAttrsEvent valid_file_db)"
    by (simp_all add: example_defs)
  show ?thesis
    using needs_initialization_valid_iff_removed
            [of added_db True "example_env", OF a(1-5)]
          needs_initialization_valid_iff_removed
            [of removed_db True "example_env", OF r(1-5)]
          needs_initialization_valid_iff_removed
            [of valid_file_db False "example_env", OF f(1-5)]
          a(1) a(6-8) r(6-8) f(6-8)
    by simp
qed

section \<open>The size of the output arrays\<close>

lemma foldl_mult_prod_list: "foldl (*) (d::int) ds = d * prod_list ds"
  by (induction ds arbitrary: d) (simp_all add: mult.assoc)

lemma reduce_mul_prod_list: "reduce_mul dims = Inr p \<Longrightarrow> p = prod_list dims"
  by (cases dims) (simp_all add: reduce_mul_def foldl_mult_prod_list)

lemma output_size_rule:
  assumes "output_size ia dims inputs name ann = Inr sz"
      and "is_wp_array_annotation ann"
  shows "if map_of ia name = Some ann
         then \<exists>a. inputs name = Some (WarpArray a) \<and> sz = len a
         else sz = prod_list dims"
proof -
  obtain d n where ann: "ann = ArrayAnn d n"
    using assms(2) by (cases ann) simp_all
  show ?thesis
    using assms(1) unfolding ann
    by (auto simp: output_size_def split: option.splits annotation.splits sum.splits
                if_splits attr_value.splits dest: reduce_mul_prod_list)
qed

lemma bind_outputs_sizes_other:
  "name \<notin> fst ` set oa \<Longrightarrow>
   outputs_sizes (outcome_db (bind_outputs env device ia dims inputs oa outputs db)) (name @ ''_size'')
     = outputs_sizes db (name @ ''_size'')"
proof (induction oa arbitrary: outputs db)
  case Nil
  then show ?case by simp
next
  case (Cons a oa)
  obtain k ann where a: "a = (k, ann)" by (cases a)
  have "name \<notin> fst ` set oa" "k \<noteq> name" using Cons.prems a by auto
  then show ?case
    unfolding a by (simp add: Let_def Cons.IH split: sum.splits option.splits)
qed

lemma bind_outputs_sizes:
  assumes "bind_outputs env device ia dims inputs oa outputs db = Return outs db'"
      and "distinct (map fst oa)"
      and "(name, ann) \<in> set oa"
  shows "is_wp_array_annotation ann \<and>
         (\<exists>sz. output_size ia dims inputs name ann = Inr sz
               \<and> outputs_sizes db' (name @ ''_size'') = Some sz)"
  using assms
proof (induction oa arbitrary: outputs db)
  case Nil
  then show ?case by simp
next
  case (Cons a oa)
  obtain k ka where a: "a = (k, ka)" by (cases a)
  show ?case
  proof (cases "(name, ann) = (k, ka)")
    case True
    then have k: "k = name" "ka = ann" by auto
    have notin: "name \<notin> fst ` set oa" using Cons.prems(2) a k by auto
    from Cons.prems(1) obtain sz w where
        arr: "is_wp_array_annotation ann"
      and sz: "output_size ia dims inputs name ann = Inr sz"
      and rest: "bind_outputs env device ia dims inputs oa (outputs(name \<mapsto> WarpArray w))
                   (db\<lparr>outputs_sizes := (outputs_sizes db)(name @ ''_size'' \<mapsto> sz)\<rparr>)
                 = Return outs db'"
      unfolding a k by (auto simp: Let_def split: if_splits sum.splits option.splits)
    have "outputs_sizes db' (name @ ''_size'')
            = outputs_sizes (db\<lparr>outputs_sizes := (outputs_sizes db)(name @ ''_size'' \<mapsto> sz)\<rparr>)
                (name @ ''_size'')"
      using bind_outputs_sizes_other[OF notin, of env device ia dims inputs
              "outputs(name \<mapsto> WarpArray w)"
              "db\<lparr>outputs_sizes := (outputs_sizes db)(name @ ''_size'' \<mapsto> sz)\<rparr>"] rest
      by simp
    then show ?thesis using arr sz by simp
  next
    case False
    then have "(name, ann) \<in> set oa" using Cons.prems(3) a by auto
    moreover have "distinct (map fst oa)" using Cons.prems(2) by simp
    ultimately show ?thesis
      using Cons.prems(1) Cons.IH unfolding a
      by (auto simp: Let_def split: if_splits sum.splits option.splits)
  qed
qed

text \<open>
  C5. When \<open>get_kernel_args\<close> returns, every declared output member has been allocated
  with this size: the length of the member of the same name in the \<open>Inputs\<close> struct when
  the input annotations have that name with an equal annotation (an array of the same
  dtype and the same number of dimensions), and the product of the extents \<open>dims\<close>
  otherwise. The keys of the annotations are those of a Python dict, hence distinct.
\<close>

theorem get_kernel_args_output_size:
  assumes "get_kernel_args env db module annotations dims device = Return (inputs, outputs) db'"
      and "distinct (map fst (annotations_OUTPUT annotations))"
      and "(name, warp_annotation) \<in> set (annotations_OUTPUT annotations)"
  shows "if map_of (annotations_INPUT annotations) name = Some warp_annotation
         then \<exists>a. inputs name = Some (WarpArray a)
                  \<and> outputs_sizes db' (name @ ''_size'') = Some (len a)
         else outputs_sizes db' (name @ ''_size'') = Some (prod_list dims)"
proof -
  from assms(1) obtain m where
    bo: "bind_outputs env device (annotations_INPUT annotations) dims inputs
           (annotations_OUTPUT annotations) Map.empty db = Return outputs db'"
    by (auto simp: get_kernel_args_def split: option.splits sum.splits outcome.splits)
  from bind_outputs_sizes[OF bo assms(2) assms(3)] obtain sz where
      arr: "is_wp_array_annotation warp_annotation"
    and sz: "output_size (annotations_INPUT annotations) dims inputs name warp_annotation = Inr sz"
    and st: "outputs_sizes db' (name @ ''_size'') = Some sz"
    by blast
  show ?thesis
    using output_size_rule[OF sz arr] st by (simp split: if_splits)
qed

text \<open>
  The node with input \<open>a\<close> of length 4 and extents 1, 2, 3: an output \<open>b\<close>, which no input
  matches, is allocated with 6 elements; an output named \<open>a\<close> like the input, and of the
  same annotation, with the 4 of the input.
\<close>

theorem get_kernel_args_output_size_witness:
  "get_kernel_args example_env valid_db (Some stored_module)
     \<lparr>annotations_INPUT = [(''a'', ArrayAnn ''float32'' 1)],
      annotations_OUTPUT = [(''b'', ArrayAnn ''float32'' 1)]\<rparr> [1, 2, 3] cpu
   = Return ([''a'' \<mapsto> WarpArray \<lparr>ptr = 4096, len = 4, dtype = ''float32''\<rparr>],
             [''b'' \<mapsto> WarpArray \<lparr>ptr = 8192, len = 0, dtype = ''float32''\<rparr>])
       (valid_db\<lparr>outputs_sizes := [''b_size'' \<mapsto> 6]\<rparr>)
   \<and> outputs_sizes (valid_db\<lparr>outputs_sizes := [''b_size'' \<mapsto> 6]\<rparr>) (''b'' @ ''_size'') = Some 6
   \<and> get_kernel_args example_env same_name_db (Some stored_module)
     \<lparr>annotations_INPUT = [(''a'', ArrayAnn ''float32'' 1)],
      annotations_OUTPUT = [(''a'', ArrayAnn ''float32'' 1)]\<rparr> [1, 2, 3] cpu
   = Return ([''a'' \<mapsto> WarpArray \<lparr>ptr = 4096, len = 4, dtype = ''float32''\<rparr>],
             [''a'' \<mapsto> WarpArray \<lparr>ptr = 8192, len = 0, dtype = ''float32''\<rparr>])
       (same_name_db\<lparr>outputs_sizes := [''a_size'' \<mapsto> 4]\<rparr>)
   \<and> outputs_sizes (same_name_db\<lparr>outputs_sizes := [''a_size'' \<mapsto> 4]\<rparr>) (''a'' @ ''_size'')
       = Some 4"
proof -
  let ?anns = "\<lparr>annotations_INPUT = [(''a'', ArrayAnn ''float32'' 1)],
                annotations_OUTPUT = [(''b'', ArrayAnn ''float32'' 1)]\<rparr>"
  let ?same = "\<lparr>annotations_INPUT = [(''a'', ArrayAnn ''float32'' 1)],
                annotations_OUTPUT = [(''a'', ArrayAnn ''float32'' 1)]\<rparr>"
  have run: "get_kernel_args example_env valid_db (Some stored_module)
     ?anns [1, 2, 3] cpu
   = Return ([''a'' \<mapsto> WarpArray \<lparr>ptr = 4096, len = 4, dtype = ''float32''\<rparr>],
             [''b'' \<mapsto> WarpArray \<lparr>ptr = 8192, len = 0, dtype = ''float32''\<rparr>])
       (valid_db\<lparr>outputs_sizes := [''b_size'' \<mapsto> 6]\<rparr>)"
    by (simp add: get_kernel_args_def output_size_def reduce_mul_def
          cast_array_to_warp_type_def example_defs)
  have d: "distinct (map fst (annotations_OUTPUT ?anns))" by simp
  have m: "(''b'', ArrayAnn ''float32'' 1) \<in> set (annotations_OUTPUT ?anns)" by simp
  have run': "get_kernel_args example_env same_name_db (Some stored_module)
     ?same [1, 2, 3] cpu
   = Return ([''a'' \<mapsto> WarpArray \<lparr>ptr = 4096, len = 4, dtype = ''float32''\<rparr>],
             [''a'' \<mapsto> WarpArray \<lparr>ptr = 8192, len = 0, dtype = ''float32''\<rparr>])
       (same_name_db\<lparr>outputs_sizes := [''a_size'' \<mapsto> 4]\<rparr>)"
    by (simp add: get_kernel_args_def output_size_def reduce_mul_def
          cast_array_to_warp_type_def example_defs)
  have d': "distinct (map fst (annotations_OUTPUT ?same))" by simp
  have m': "(''a'', ArrayAnn ''float32'' 1) \<in> set (annotations_OUTPUT ?same)" by simp
  show ?thesis
    using get_kernel_args_output_size[OF run d m] get_kernel_args_output_size[OF run' d' m']
          run run'
    by simp
qed

section \<open>Validation of the compiled module\<close>

lemma initialize_after_load:
  assumes "initialize_load env db = Return m db2"
  shows "initialize env db = initialize_validate (filter is_dynamic (node_attributes db)) m db2"
proof -
  have "node_attributes db2 = node_attributes db"
    using initialize_load_preserves[of node_attributes env db] assms by simp
  then show ?thesis
    using assms by (simp add: initialize_def)
qed

lemma set_attr_names:
  "set (attr_names (filter is_dynamic (node_attributes db)) p)
     = (\<lambda>x. split_last (get_name x)) `
         {x \<in> set (node_attributes db). is_dynamic x \<and> get_port_type x = p}"
  by (auto simp: attr_names_def)

lemma sort_eq_set_eq:
  fixes xs ys :: "string list"
  assumes "sort xs = sort ys"
  shows "set xs = set ys"
proof -
  have "set (sort xs) = set (sort ys)" using assms by simp
  then show ?thesis by simp
qed

lemmas load_defs = initialize_load_def generate_header_code_def get_user_code_def
  load_code_as_module_def HEADER_CODE_TEMPLATE_def member_line_def split_last_def Let_def

text \<open>
  C8. Once the module is loaded, \<open>initialize\<close> decides in this order, leaving at the first
  check that fails: no member \<open>compute\<close> (one log entry, result false); \<open>compute\<close> is
  not a kernel (one log entry, result false); then the assertion on the member names,
  which the claim does not list and which raises; then the outputs, where the names of
  all members that are not arrays go into one log entry, in the order of declaration,
  joined by commas, and the result is false. Otherwise the module is stored, with the
  backward pass disabled, and the result is true.
\<close>

theorem initialize_validation_order:
  assumes "initialize_load env db = Return m db2"
  shows "initialize env db =
     (if compute_attr m = None then
        Return False
          (db2\<lparr>logged := logged db2
             @ [''The code must define a kernel function named '' @ [APOS] @ ''compute''
                @ [APOS] @ ''.'']\<rparr>)
      else if compute_attr m \<noteq> Some Kernel then
        Return False
          (db2\<lparr>logged := logged db2
             @ [''The '' @ [APOS] @ ''compute'' @ [APOS] @ '' function must be decorated with ''
                @ [APOS] @ ''@wp.kernel'' @ [APOS] @ ''.'']\<rparr>)
      else if \<not> (sort (map fst (Inputs_cls m))
                  = sort (attr_names (filter is_dynamic (node_attributes db)) ATTR_PORT_TYPE_INPUT)
                \<and> sort (map fst (Outputs_cls m))
                  = sort (attr_names (filter is_dynamic (node_attributes db)) ATTR_PORT_TYPE_OUTPUT))
      then Raise (AssertionError []) db2
      else if filter (\<lambda>kv. \<not> is_wp_array_annotation (snd kv)) (Outputs_cls m) \<noteq> [] then
        Return False
          (db2\<lparr>logged := logged db2
             @ [''Output attributes are required to be arrays but the following attributes are not: ''
                @ join '', '' (map fst (filter (\<lambda>kv. \<not> is_wp_array_annotation (snd kv))
                                         (Outputs_cls m)))
                @ ''.'']\<rparr>)
      else
        Return True
          (db2\<lparr>internal_state := (internal_state db2)
                \<lparr>kernel_module := Some (m\<lparr>enable_backward := False\<rparr>),
                 kernel_annotations := Some \<lparr>annotations_INPUT = Inputs_cls m,
                                             annotations_OUTPUT = Outputs_cls m\<rparr>\<rparr>\<rparr>))"
  using initialize_after_load[OF assms]
  by (simp add: initialize_validate_def invalid_attrs_def log_error_def Let_def
           split: option.splits)

text \<open>
  The node with the scalar outputs \<open>x\<close> and \<open>y\<close> around the array \<open>z\<close>: the module loads,
  has a kernel \<open>compute\<close> and the members of the node, and is refused with both names.
\<close>

theorem initialize_validation_order_witness:
  "initialize_load example_env scalar_outputs_db
     = Return scalar_outputs_module
         (loaded scalar_outputs_db ''warp-kernelnode-548397ce61857638'')
   \<and> initialize example_env scalar_outputs_db
     = Return False
         ((loaded scalar_outputs_db ''warp-kernelnode-548397ce61857638'')
            \<lparr>logged := [''Output attributes are required to be arrays but the following attributes are not: x, y.'']\<rparr>)"
proof -
  have load: "initialize_load example_env scalar_outputs_db
     = Return scalar_outputs_module
         (loaded scalar_outputs_db ''warp-kernelnode-548397ce61857638'')"
    by (simp add: load_defs example_defs)
  show ?thesis
    using initialize_validation_order[OF load] load
    by (simp add: example_defs attr_names_def split_last_def)
qed

text \<open>
  C6. A module that \<open>initialize\<close> stores has, for inputs and for outputs, exactly the
  member names of the dynamic attributes of the node with that port type (the part of
  the attribute name after the last colon). The assertion that enforces it stands after
  the import and the two checks of the entry point: a loaded module with a kernel
  \<open>compute\<close> whose member names differ from the attribute names, for one direction, makes
  \<open>initialize\<close> raise the assertion error, and nothing is stored.
\<close>

theorem initialize_asserts_member_names:
  "(initialize env db = Return True db' \<longrightarrow>
      (\<exists>m. kernel_module (internal_state db') = Some m
           \<and> kernel_annotations (internal_state db')
               = Some \<lparr>annotations_INPUT = Inputs_cls m, annotations_OUTPUT = Outputs_cls m\<rparr>
           \<and> set (map fst (Inputs_cls m))
               = (\<lambda>x. split_last (get_name x)) `
                   {x \<in> set (node_attributes db).
                      is_dynamic x \<and> get_port_type x = ATTR_PORT_TYPE_INPUT}
           \<and> set (map fst (Outputs_cls m))
               = (\<lambda>x. split_last (get_name x)) `
                   {x \<in> set (node_attributes db).
                      is_dynamic x \<and> get_port_type x = ATTR_PORT_TYPE_OUTPUT}))
   \<and> (initialize_load env db = Return m2 db2 \<and> compute_attr m2 = Some Kernel
        \<and> (set (map fst (Inputs_cls m2))
               \<noteq> (\<lambda>x. split_last (get_name x)) `
                   {x \<in> set (node_attributes db).
                      is_dynamic x \<and> get_port_type x = ATTR_PORT_TYPE_INPUT}
            \<or> set (map fst (Outputs_cls m2))
               \<noteq> (\<lambda>x. split_last (get_name x)) `
                   {x \<in> set (node_attributes db).
                      is_dynamic x \<and> get_port_type x = ATTR_PORT_TYPE_OUTPUT})
        \<longrightarrow> initialize env db = Raise (AssertionError []) db2)"
proof -
  let ?attrs = "filter is_dynamic (node_attributes db)"
  have a: "\<exists>m. kernel_module (internal_state db') = Some m
           \<and> kernel_annotations (internal_state db')
               = Some \<lparr>annotations_INPUT = Inputs_cls m, annotations_OUTPUT = Outputs_cls m\<rparr>
           \<and> set (map fst (Inputs_cls m)) = set (attr_names ?attrs ATTR_PORT_TYPE_INPUT)
           \<and> set (map fst (Outputs_cls m)) = set (attr_names ?attrs ATTR_PORT_TYPE_OUTPUT)"
    if ok: "initialize env db = Return True db'"
  proof -
    from ok obtain m d2 where load: "initialize_load env db = Return m d2"
      by (auto simp: initialize_def split: outcome.splits)
    from initialize_after_load[OF load] ok
    have v: "initialize_validate ?attrs m d2 = Return True db'" by simp
    then have s1: "sort (map fst (Inputs_cls m)) = sort (attr_names ?attrs ATTR_PORT_TYPE_INPUT)"
          and s2: "sort (map fst (Outputs_cls m)) = sort (attr_names ?attrs ATTR_PORT_TYPE_OUTPUT)"
          and st: "db' = d2\<lparr>internal_state := (internal_state d2)
                      \<lparr>kernel_module := Some (m\<lparr>enable_backward := False\<rparr>),
                       kernel_annotations := Some \<lparr>annotations_INPUT = Inputs_cls m,
                                                   annotations_OUTPUT = Outputs_cls m\<rparr>\<rparr>\<rparr>"
      by (auto simp: initialize_validate_def log_error_def Let_def
               split: option.splits if_splits)
    show ?thesis
      using sort_eq_set_eq[OF s1] sort_eq_set_eq[OF s2] unfolding st
      by (intro exI[of _ "m\<lparr>enable_backward := False\<rparr>"]) simp
  qed
  have b: "initialize env db = Raise (AssertionError []) db2"
    if load: "initialize_load env db = Return m2 db2"
      and k: "compute_attr m2 = Some Kernel"
      and ne: "set (map fst (Inputs_cls m2)) \<noteq> set (attr_names ?attrs ATTR_PORT_TYPE_INPUT)
        \<or> set (map fst (Outputs_cls m2)) \<noteq> set (attr_names ?attrs ATTR_PORT_TYPE_OUTPUT)"
  proof -
    have "\<not> (sort (map fst (Inputs_cls m2)) = sort (attr_names ?attrs ATTR_PORT_TYPE_INPUT)
             \<and> sort (map fst (Outputs_cls m2)) = sort (attr_names ?attrs ATTR_PORT_TYPE_OUTPUT))"
      using ne sort_eq_set_eq by blast
    then show ?thesis
      using initialize_after_load[OF load] k by (simp add: initialize_validate_def Let_def)
  qed
  show ?thesis
    using a b unfolding set_attr_names by blast
qed

text \<open>
  The fresh node compiles to the module with the members \<open>a\<close> and \<open>b\<close> of its attributes,
  which is stored; the code that declares its own \<open>Inputs\<close> with a member \<open>x\<close> trips the
  assertion.
\<close>

theorem initialize_asserts_member_names_witness:
  "initialize example_env fresh_db
     = Return True ((loaded fresh_db ''warp-kernelnode-851d3303e48d4c2e'')
                      \<lparr>internal_state := valid_state\<lparr>is_valid := False\<rparr>\<rparr>)
   \<and> set (map fst (Inputs_cls stored_module)) = {''a''}
   \<and> (\<lambda>x. split_last (get_name x)) `
         {x \<in> set (node_attributes fresh_db).
            is_dynamic x \<and> get_port_type x = ATTR_PORT_TYPE_INPUT} = {''a''}
   \<and> initialize_load example_env own_inputs_db
     = Return own_inputs_module (loaded own_inputs_db ''warp-kernelnode-e3e289ec6136838a'')
   \<and> compute_attr own_inputs_module = Some Kernel
   \<and> set (map fst (Inputs_cls own_inputs_module)) = {''x''}
   \<and> (\<lambda>x. split_last (get_name x)) `
         {x \<in> set (node_attributes own_inputs_db).
            is_dynamic x \<and> get_port_type x = ATTR_PORT_TYPE_INPUT} = {''a''}
   \<and> initialize example_env own_inputs_db
     = Raise (AssertionError []) (loaded own_inputs_db ''warp-kernelnode-e3e289ec6136838a'')"
proof -
  let ?d1 = "(loaded fresh_db ''warp-kernelnode-851d3303e48d4c2e'')
               \<lparr>internal_state := valid_state\<lparr>is_valid := False\<rparr>\<rparr>"
  let ?d2 = "loaded own_inputs_db ''warp-kernelnode-e3e289ec6136838a''"
  let ?names = "\<lambda>db. (\<lambda>x. split_last (get_name x)) `
         {x \<in> set (node_attributes db).
            is_dynamic x \<and> get_port_type x = ATTR_PORT_TYPE_INPUT}"
  have names: "?names fresh_db = {''a''}" "?names own_inputs_db = {''a''}"
    unfolding set_attr_names[symmetric]
    by (simp_all add: attr_names_def example_defs split_last_def)
  have ok: "initialize example_env fresh_db = Return True ?d1"
    by (simp add: initialize_def initialize_validate_def invalid_attrs_def attr_names_def
          load_defs example_defs)
  have load: "initialize_load example_env own_inputs_db = Return own_inputs_module ?d2"
    by (simp add: load_defs example_defs)
  have k: "compute_attr own_inputs_module = Some Kernel"
    by (simp add: example_defs)
  have x: "set (map fst (Inputs_cls own_inputs_module)) = {''x''}"
    by (simp add: example_defs)
  have ne: "set (map fst (Inputs_cls own_inputs_module)) \<noteq> ?names own_inputs_db"
    unfolding names x by simp
  have s: "set (map fst (Inputs_cls stored_module)) = {''a''}"
    by (simp add: example_defs)
  have first: "\<exists>m. kernel_module (internal_state ?d1) = Some m
           \<and> kernel_annotations (internal_state ?d1)
               = Some \<lparr>annotations_INPUT = Inputs_cls m, annotations_OUTPUT = Outputs_cls m\<rparr>
           \<and> set (map fst (Inputs_cls m)) = ?names fresh_db
           \<and> set (map fst (Outputs_cls m))
               = (\<lambda>x. split_last (get_name x)) `
                   {x \<in> set (node_attributes fresh_db).
                      is_dynamic x \<and> get_port_type x = ATTR_PORT_TYPE_OUTPUT}"
    by (rule initialize_asserts_member_names[THEN conjunct1, rule_format, OF ok])
  have second: "initialize example_env own_inputs_db = Raise (AssertionError []) ?d2"
    by (rule initialize_asserts_member_names[THEN conjunct2, rule_format,
               OF conjI[OF load conjI[OF k disjI1[OF ne]]]])
  have stored: "kernel_module (internal_state ?d1) = Some stored_module"
    by (simp add: valid_state_def)
  from first stored have "set (map fst (Inputs_cls stored_module)) = ?names fresh_db"
    by auto
  then show ?thesis
    using ok names load k x second s by simp
qed

section \<open>The entry point: event reset and execution output\<close>

lemma compute_keeps_event:
  "state_userAttrsEvent (outcome_db (compute env db device)) = state_userAttrsEvent db"
  by (rule compute_preserves) simp_all

lemma compute_keeps_execOut:
  "outputs_execOut (outcome_db (compute env db device)) = outputs_execOut db"
  by (rule compute_preserves) simp_all

text \<open>
  C10, as the code has it. When the device of the node, or else the fallback \<open>cuda:0\<close>,
  is found, the inner \<open>compute\<close> runs and the entry point returns without raising: if
  the inner \<open>compute\<close> returned without raising, the event is none and the execution
  output enabled afterwards; if it raised, both keep the value they had before the call.
  The inner \<open>compute\<close> returns without raising in particular when a compilation was asked
  for and \<open>initialize\<close> returned false, and when nothing is to be compiled and the stored
  annotations declare no output. When neither device is found, the inner \<open>compute\<close> does
  not run: the exception of the lookup leaves the entry point and the database is as it
  was, so that the two effects are skipped there too.
\<close>

theorem OgnKernel_compute_event_and_execOut:
  "(resolve_device env db = Inl e \<longrightarrow> OgnKernel_compute env db = Raise e db)
   \<and> (resolve_device env db = Inr device \<longrightarrow>
        raised (OgnKernel_compute env db) = None
        \<and> (raised (compute env db device) = None \<longrightarrow>
              state_userAttrsEvent (outcome_db (OgnKernel_compute env db)) = NONE
              \<and> outputs_execOut (outcome_db (OgnKernel_compute env db)) = ENABLED)
        \<and> (raised (compute env db device) \<noteq> None \<longrightarrow>
              state_userAttrsEvent (outcome_db (OgnKernel_compute env db))
                = state_userAttrsEvent db
              \<and> outputs_execOut (outcome_db (OgnKernel_compute env db)) = outputs_execOut db)
        \<and> (needs_initialization env (db\<lparr>dynamic_attribute_on_gpu := is_cuda device\<rparr>)
                (timeline_is_stopped env) = Inr True
              \<and> returned (initialize env (db\<lparr>dynamic_attribute_on_gpu := is_cuda device\<rparr>))
                  = Some False \<longrightarrow>
              raised (compute env db device) = None)
        \<and> (needs_initialization env (db\<lparr>dynamic_attribute_on_gpu := is_cuda device\<rparr>)
                (timeline_is_stopped env) = Inr False
              \<and> kernel_annotations (internal_state db) = Some annotations
              \<and> annotations_OUTPUT annotations = [] \<longrightarrow>
              raised (compute env db device) = None))"
proof -
  let ?db0 = "db\<lparr>dynamic_attribute_on_gpu := is_cuda device\<rparr>"
  have n: "OgnKernel_compute env db = Raise e db" if "resolve_device env db = Inl e"
    using that by (simp add: OgnKernel_compute_def)
  have r: "raised (OgnKernel_compute env db) = None" if "resolve_device env db = Inr device"
    using that by (cases "compute env db device") (simp_all add: OgnKernel_compute_def)
  have a: "state_userAttrsEvent (outcome_db (OgnKernel_compute env db)) = NONE
            \<and> outputs_execOut (outcome_db (OgnKernel_compute env db)) = ENABLED"
    if "resolve_device env db = Inr device" "raised (compute env db device) = None"
    using that by (cases "compute env db device") (simp_all add: OgnKernel_compute_def)
  have b: "state_userAttrsEvent (outcome_db (OgnKernel_compute env db)) = state_userAttrsEvent db
            \<and> outputs_execOut (outcome_db (OgnKernel_compute env db)) = outputs_execOut db"
    if "resolve_device env db = Inr device" "raised (compute env db device) \<noteq> None"
    using that compute_keeps_event[of env db device] compute_keeps_execOut[of env db device]
    by (cases "compute env db device") (simp_all add: OgnKernel_compute_def log_error_def)
  have c: "raised (compute env db device) = None"
    if "needs_initialization env ?db0 (timeline_is_stopped env) = Inr True"
       "returned (initialize env ?db0) = Some False"
    using that by (cases "initialize env ?db0") (simp_all add: compute_def Let_def)
  have d: "raised (compute env db device) = None"
    if "needs_initialization env ?db0 (timeline_is_stopped env) = Inr False"
       "kernel_annotations (internal_state db) = Some annotations"
       "annotations_OUTPUT annotations = []"
    using that by (simp add: compute_def compute_dispatch_def Let_def)
  show ?thesis
    using n r a b c d by blast
qed

text \<open>
  Four runs: the valid node after a removal, whose edited code has no \<open>compute\<close>; the
  node without outputs; the node whose required input is empty, where the
  added-attribute event and the disabled execution output stay as they were; and the
  node authored for \<open>cuda:1\<close> on a machine without CUDA devices.
\<close>

theorem OgnKernel_compute_event_and_execOut_witness:
  "resolve_device example_env edited_db = Inr cpu
   \<and> needs_initialization example_env
         (edited_db\<lparr>dynamic_attribute_on_gpu := is_cuda cpu\<rparr>) True = Inr True
   \<and> returned (initialize example_env
                  (edited_db\<lparr>dynamic_attribute_on_gpu := is_cuda cpu\<rparr>)) = Some False
   \<and> state_userAttrsEvent (outcome_db (OgnKernel_compute example_env edited_db))
       = NONE
   \<and> outputs_execOut (outcome_db (OgnKernel_compute example_env edited_db))
       = ENABLED
   \<and> needs_initialization example_env
         (no_outputs_db\<lparr>dynamic_attribute_on_gpu := is_cuda cpu\<rparr>) True = Inr False
   \<and> state_userAttrsEvent (outcome_db (OgnKernel_compute example_env no_outputs_db))
       = NONE
   \<and> outputs_execOut (outcome_db (OgnKernel_compute example_env no_outputs_db))
       = ENABLED
   \<and> raised (compute example_env empty_input_db cpu)
       = Some (RuntimeError (''Empty value for non-optional attribute '' @ [APOS] @ ''inputs:a''
                 @ [APOS] @ ''.''))
   \<and> state_userAttrsEvent (outcome_db (OgnKernel_compute example_env empty_input_db))
       = \<lparr>CREATED = True, REMOVED = False\<rparr>
   \<and> outputs_execOut (outcome_db (OgnKernel_compute example_env empty_input_db))
       = DISABLED
   \<and> resolve_device cpu_only_env cuda1_db = Inl (KeyError ''cuda:0'')
   \<and> OgnKernel_compute cpu_only_env cuda1_db = Raise (KeyError ''cuda:0'') cuda1_db"
proof -
  let ?E = "example_env"
  have dev: "resolve_device ?E edited_db = Inr cpu" "resolve_device ?E no_outputs_db = Inr cpu"
            "resolve_device ?E empty_input_db = Inr cpu"
    by (simp_all add: resolve_device_def example_defs)
  have need: "needs_initialization ?E (edited_db\<lparr>dynamic_attribute_on_gpu := is_cuda cpu\<rparr>)
                (timeline_is_stopped ?E) = Inr True"
    by (simp add: needs_initialization_def example_defs)
  have fail: "returned (initialize ?E (edited_db\<lparr>dynamic_attribute_on_gpu := is_cuda cpu\<rparr>))
                = Some False"
    by (simp add: initialize_def initialize_validate_def load_defs example_defs)
  have noneed: "needs_initialization ?E (no_outputs_db\<lparr>dynamic_attribute_on_gpu := is_cuda cpu\<rparr>)
                (timeline_is_stopped ?E) = Inr False"
    by (simp add: needs_initialization_def example_defs)
  have anns: "kernel_annotations (internal_state no_outputs_db)
                = Some \<lparr>annotations_INPUT = [(''a'', ArrayAnn ''float32'' 1)],
                        annotations_OUTPUT = []\<rparr>"
    by (simp add: example_defs)
  have err: "raised (compute ?E empty_input_db cpu)
       = Some (RuntimeError (''Empty value for non-optional attribute '' @ [APOS] @ ''inputs:a''
                 @ [APOS] @ ''.''))"
    by (simp add: compute_def needs_initialization_def compute_dispatch_def get_kernel_args_def
          output_size_def reduce_mul_def cast_array_to_warp_type_def Controller_attribute_def
          example_defs)
  have stopped: "timeline_is_stopped ?E = True"
    by (simp add: example_defs)
  have ev: "state_userAttrsEvent empty_input_db = \<lparr>CREATED = True, REMOVED = False\<rparr>"
           "outputs_execOut empty_input_db = DISABLED"
    by (simp_all add: example_defs)
  have nodev: "resolve_device cpu_only_env cuda1_db = Inl (KeyError ''cuda:0'')"
    by (simp add: resolve_device_def example_defs)
  note n = OgnKernel_compute_event_and_execOut[THEN conjunct1, rule_format, OF nodev]
  note c = OgnKernel_compute_event_and_execOut[THEN conjunct2, rule_format, OF dev(1)]
  note d = OgnKernel_compute_event_and_execOut
             [THEN conjunct2, rule_format, OF dev(2),
              of "\<lparr>annotations_INPUT = [(''a'', ArrayAnn ''float32'' 1)],
                  annotations_OUTPUT = []\<rparr>"]
  note b = OgnKernel_compute_event_and_execOut[THEN conjunct2, rule_format, OF dev(3)]
  have rc: "raised (compute ?E edited_db cpu) = None"
    using c need fail by blast
  have rd: "raised (compute ?E no_outputs_db cpu) = None"
    using d noneed anns by simp
  have "state_userAttrsEvent (outcome_db (OgnKernel_compute ?E edited_db)) = NONE
        \<and> outputs_execOut (outcome_db (OgnKernel_compute ?E edited_db)) = ENABLED"
    using c rc by blast
  moreover have "state_userAttrsEvent (outcome_db (OgnKernel_compute ?E no_outputs_db)) = NONE
        \<and> outputs_execOut (outcome_db (OgnKernel_compute ?E no_outputs_db)) = ENABLED"
    using d rd by blast
  moreover have "state_userAttrsEvent (outcome_db (OgnKernel_compute ?E empty_input_db))
          = state_userAttrsEvent empty_input_db
        \<and> outputs_execOut (outcome_db (OgnKernel_compute ?E empty_input_db))
          = outputs_execOut empty_input_db"
    using b err by simp
  ultimately show ?thesis
    using dev need fail noneed err ev stopped nodev n by simp
qed

text \<open>
  C10 as stated fails on the node authored for \<open>cuda:1\<close>, on a machine without CUDA
  devices: neither \<open>cuda:1\<close> nor the fallback \<open>cuda:0\<close> is found, the exception leaves the
  entry point, the added-attribute event is not reset and the execution output stays
  disabled, although no exception escaped the inner \<open>compute\<close>, which did not run and
  which returns without raising on the cpu.
\<close>

theorem unresolved_device_counterexample:
  "resolve_device cpu_only_env cuda1_db = Inl (KeyError ''cuda:0'')
   \<and> raised (OgnKernel_compute cpu_only_env cuda1_db) = Some (KeyError ''cuda:0'')
   \<and> state_userAttrsEvent (outcome_db (OgnKernel_compute cpu_only_env cuda1_db))
       = \<lparr>CREATED = True, REMOVED = False\<rparr>
   \<and> state_userAttrsEvent (outcome_db (OgnKernel_compute cpu_only_env cuda1_db)) \<noteq> NONE
   \<and> outputs_execOut (outcome_db (OgnKernel_compute cpu_only_env cuda1_db)) = DISABLED
   \<and> raised (compute cpu_only_env cuda1_db cpu) = None"
  by (simp add: OgnKernel_compute_def resolve_device_def compute_def needs_initialization_def
        compute_dispatch_def get_kernel_args_def output_size_def reduce_mul_def
        cast_array_to_warp_type_def write_output_attrs_def Controller_attribute_def
        example_defs)

section \<open>A failed compilation or validation\<close>

lemma initialize_load_internal_state:
  "internal_state (outcome_db (initialize_load env db))
     = (internal_state db)\<lparr>dim_count := Some (inputs_dimCount db),
                            code_provider := Some (inputs_codeProvider db),
                            code_str := Some (inputs_codeStr db),
                            code_file := Some (inputs_codeFile db)\<rparr>"
  by (simp add: initialize_load_def Let_def split: option.splits sum.splits)

lemma initialize_validate_failure_state:
  "returned (initialize_validate attrs m db) \<noteq> Some True \<Longrightarrow>
   internal_state (outcome_db (initialize_validate attrs m db)) = internal_state db"
  by (auto simp: initialize_validate_def log_error_def Let_def split: option.splits if_splits)

lemma initialize_failure_internal_state:
  assumes "returned (initialize env db) \<noteq> Some True"
  shows "internal_state (outcome_db (initialize env db))
     = (internal_state db)\<lparr>dim_count := Some (inputs_dimCount db),
                            code_provider := Some (inputs_codeProvider db),
                            code_str := Some (inputs_codeStr db),
                            code_file := Some (inputs_codeFile db)\<rparr>"
proof (cases "initialize_load env db")
  case (Raise e d)
  then show ?thesis
    using initialize_load_internal_state[of env db] by (simp add: initialize_def)
next
  case (Return m d)
  then have eq: "initialize env db = initialize_validate (filter is_dynamic (node_attributes db)) m d"
    by (rule initialize_after_load)
  show ?thesis
    using assms initialize_load_internal_state[of env db] Return
          initialize_validate_failure_state[of "filter is_dynamic (node_attributes db)" m d]
    unfolding eq by simp
qed


lemma OgnKernel_compute_internal_state:
  assumes "resolve_device env db = Inr device"
  shows "internal_state (outcome_db (OgnKernel_compute env db))
           = (if raised (compute env db device) = None
              then internal_state (outcome_db (compute env db device))
              else (internal_state (outcome_db (compute env db device)))\<lparr>is_valid := False\<rparr>)"
  using assms
  by (cases "compute env db device") (simp_all add: OgnKernel_compute_def log_error_def)

lemma OgnKernel_compute_preserves:
  assumes dev: "resolve_device env db = Inr device"
      and "\<And>d s. g (d\<lparr>internal_state := s\<rparr>) = g d"
      and "\<And>d s. g (d\<lparr>logged := s\<rparr>) = g d"
      and "\<And>d s. g (d\<lparr>wp_config_quiet := s\<rparr>) = g d"
      and "\<And>d s. g (d\<lparr>state_userAttrsEvent := s\<rparr>) = g d"
      and "\<And>d s. g (d\<lparr>outputs_execOut := s\<rparr>) = g d"
  shows "g (outcome_db (OgnKernel_compute env db)) = g (outcome_db (compute env db device))"
  using assms
  by (cases "compute env db device") (simp_all add: OgnKernel_compute_def log_error_def)




section \<open>An empty required input\<close>

lemma check_inputs_finds_empty:
  assumes "\<forall>n \<in> set names. inputs n \<noteq> None
             \<and> (\<forall>w. inputs n = Some (WarpArray w) \<longrightarrow>
                    Controller_attribute (''inputs:'' @ n) db \<noteq> None)"
      and "k \<in> set names"
      and "inputs k = Some (WarpArray v)"
      and "ptr v = 0"
      and "Controller_attribute (''inputs:'' @ k) db = Some attr"
      and "\<not> is_optional_for_compute attr"
  shows "\<exists>n w a. n \<in> set names \<and> inputs n = Some (WarpArray w) \<and> ptr w = 0
           \<and> Controller_attribute (''inputs:'' @ n) db = Some a \<and> \<not> is_optional_for_compute a
           \<and> check_inputs db inputs names
               = Some (RuntimeError (''Empty value for non-optional attribute '' @ [APOS]
                         @ ''inputs:'' @ n @ [APOS] @ ''.''))"
  using assms(1,2)
proof (induction names)
  case Nil
  then show ?case by simp
next
  case (Cons x names)
  from Cons.prems(1) obtain val where val: "inputs x = Some val" by auto
  have later: "\<exists>n w a. n \<in> set names \<and> inputs n = Some (WarpArray w) \<and> ptr w = 0
           \<and> Controller_attribute (''inputs:'' @ n) db = Some a \<and> \<not> is_optional_for_compute a
           \<and> check_inputs db inputs names
               = Some (RuntimeError (''Empty value for non-optional attribute '' @ [APOS]
                         @ ''inputs:'' @ n @ [APOS] @ ''.''))"
    if "k \<noteq> x"
    using Cons.IH Cons.prems that by simp
  show ?case
  proof (cases "\<exists>w a. val = WarpArray w \<and> Controller_attribute (''inputs:'' @ x) db = Some a
                     \<and> \<not> is_optional_for_compute a \<and> ptr w = 0")
    case True
    then obtain w a where "val = WarpArray w" "Controller_attribute (''inputs:'' @ x) db = Some a"
        "\<not> is_optional_for_compute a" "ptr w = 0"
      by blast
    then show ?thesis
      using val by (intro exI[of _ x] exI[of _ w] exI[of _ a]) simp
  next
    case False
    then have "k \<noteq> x" using assms(3-6) val by auto
    from later[OF this] obtain n w a where found:
        "n \<in> set names" "inputs n = Some (WarpArray w)" "ptr w = 0"
        "Controller_attribute (''inputs:'' @ n) db = Some a" "\<not> is_optional_for_compute a"
        "check_inputs db inputs names
               = Some (RuntimeError (''Empty value for non-optional attribute '' @ [APOS]
                         @ ''inputs:'' @ n @ [APOS] @ ''.''))"
      by blast
    have skip: "check_inputs db inputs (x # names) = check_inputs db inputs names"
    proof (cases val)
      case (WarpArray w')
      with Cons.prems(1) val obtain a' where
        "Controller_attribute (''inputs:'' @ x) db = Some a'" by auto
      then show ?thesis using False val WarpArray by auto
    qed (simp_all add: val)
    show ?thesis
      using found skip by (intro exI[of _ n] exI[of _ w] exI[of _ a]) simp
  qed
qed

lemma bind_inputs_defined:
  assumes "bind_inputs env db device anns acc = Inr inputs"
      and "k \<in> fst ` set anns \<or> acc k \<noteq> None"
  shows "inputs k \<noteq> None"
  using assms
proof (induction anns arbitrary: acc)
  case Nil
  then show ?case by simp
next
  case (Cons a anns)
  obtain n ann where a: "a = (n, ann)" by (cases a)
  from Cons.prems(1) obtain acc' where
      step: "bind_inputs env db device anns acc' = Inr inputs"
    and upd: "\<exists>val. acc' = acc(n \<mapsto> val)"
    unfolding a by (auto split: option.splits if_splits sum.splits)
  have "k \<in> fst ` set anns \<or> acc' k \<noteq> None"
    using Cons.prems(2) upd a by (auto split: if_splits)
  then show ?case by (rule Cons.IH[OF step])
qed

lemma compute_enters_dispatch:
  assumes "needs_initialization env (db\<lparr>dynamic_attribute_on_gpu := is_cuda device\<rparr>)
             (timeline_is_stopped env) = Inr False
           \<and> d = db\<lparr>dynamic_attribute_on_gpu := is_cuda device\<rparr>
           \<or> needs_initialization env (db\<lparr>dynamic_attribute_on_gpu := is_cuda device\<rparr>)
               (timeline_is_stopped env) = Inr True
             \<and> (\<exists>db1. initialize env (db\<lparr>dynamic_attribute_on_gpu := is_cuda device\<rparr>)
                         = Return True db1
                       \<and> d = db1\<lparr>internal_state := (internal_state db1)\<lparr>is_valid := True\<rparr>\<rparr>)"
  shows "compute env db device = compute_dispatch env d device"
    and "launches d = launches db"
proof -
  let ?db0 = "db\<lparr>dynamic_attribute_on_gpu := is_cuda device\<rparr>"
  show "compute env db device = compute_dispatch env d device"
    using assms by (auto simp: compute_def Let_def)
  have "launches (outcome_db (initialize env ?db0)) = launches ?db0"
    by (rule initialize_preserves) simp_all
  then show "launches d = launches db"
    using assms by auto
qed

text \<open>
  C2, as the code has it. Take an invocation that reaches the dispatch on a valid state
  \<open>d\<close>, be it that nothing was to be compiled or that \<open>initialize\<close> has just succeeded in
  the same invocation, with at least one declared output and the arguments bound. If
  some array input is empty and its attribute is not optional (and the attribute of
  every array input is found on the node), the inner \<open>compute\<close> raises the error that
  names such an input, and no kernel is launched. The entry point catches the error, so
  that it returns without raising; it appends the traceback of this error to the log
  and clears the validity flag: the state is invalid afterwards, while the stored module
  and annotations are those the dispatch ran on.
\<close>

theorem empty_required_input_invalidates:
  assumes dev: "resolve_device env db = Inr device"
      and entry: "needs_initialization env (db\<lparr>dynamic_attribute_on_gpu := is_cuda device\<rparr>)
                     (timeline_is_stopped env) = Inr False
                   \<and> d = db\<lparr>dynamic_attribute_on_gpu := is_cuda device\<rparr>
                  \<or> needs_initialization env (db\<lparr>dynamic_attribute_on_gpu := is_cuda device\<rparr>)
                       (timeline_is_stopped env) = Inr True
                    \<and> (\<exists>db1. initialize env (db\<lparr>dynamic_attribute_on_gpu := is_cuda device\<rparr>)
                                = Return True db1
                              \<and> d = db1\<lparr>internal_state := (internal_state db1)\<lparr>is_valid := True\<rparr>\<rparr>)"
      and valid: "is_valid (internal_state d)"
      and anns: "kernel_annotations (internal_state d) = Some annotations"
      and outs: "annotations_OUTPUT annotations \<noteq> []"
      and dims: "read_dims (inputs_dim d)
                   [0 ..< nat (min (max (inputs_dimCount d) 1) (MAX_DIMENSIONS env))] = Inr dims"
      and args: "get_kernel_args env d (kernel_module (internal_state d)) annotations dims device
                 = Return (inputs, outputs) d1"
      and attrs: "\<forall>n \<in> set (map fst (annotations_INPUT annotations)).
                    \<forall>w. inputs n = Some (WarpArray w) \<longrightarrow>
                      Controller_attribute (''inputs:'' @ n) d \<noteq> None"
      and empty: "k \<in> set (map fst (annotations_INPUT annotations))"
                 "inputs k = Some (WarpArray v)" "ptr v = 0"
                 "Controller_attribute (''inputs:'' @ k) d = Some attr"
                 "\<not> is_optional_for_compute attr"
  shows "(\<exists>n w a. n \<in> set (map fst (annotations_INPUT annotations))
            \<and> inputs n = Some (WarpArray w) \<and> ptr w = 0
            \<and> Controller_attribute (''inputs:'' @ n) d = Some a \<and> \<not> is_optional_for_compute a
            \<and> compute env db device
                = Raise (RuntimeError (''Empty value for non-optional attribute '' @ [APOS]
                           @ ''inputs:'' @ n @ [APOS] @ ''.'')) d1
            \<and> logged (outcome_db (OgnKernel_compute env db))
                = logged d
                  @ [format_exc env
                       (RuntimeError (''Empty value for non-optional attribute '' @ [APOS]
                          @ ''inputs:'' @ n @ [APOS] @ ''.''))])
       \<and> raised (OgnKernel_compute env db) = None
       \<and> \<not> is_valid (internal_state (outcome_db (OgnKernel_compute env db)))
       \<and> kernel_module (internal_state (outcome_db (OgnKernel_compute env db)))
           = kernel_module (internal_state d)
       \<and> kernel_annotations (internal_state (outcome_db (OgnKernel_compute env db)))
           = kernel_annotations (internal_state d)
       \<and> launches (outcome_db (OgnKernel_compute env db)) = launches db"
proof -
  let ?names = "map fst (annotations_INPUT annotations)"
  note enter = compute_enters_dispatch[OF entry]
  have pres: "g d1 = g d" if "\<And>x s. g (x\<lparr>outputs_sizes := s\<rparr>) = g x"
    for g :: "OgnKernelDatabase \<Rightarrow> 'a"
    using get_kernel_args_preserves[of g env d "kernel_module (internal_state d)"
            annotations dims device, OF that] args
    by simp
  have na: "node_attributes d1 = node_attributes d"
    using pres[of node_attributes] by simp
  have ist: "internal_state d1 = internal_state d"
    using pres[of internal_state] by simp
  have lau: "launches d1 = launches db"
    using pres[of launches] enter(2) by simp
  have lg: "logged d1 = logged d"
    using pres[of logged] by simp
  have ca: "Controller_attribute p d1 = Controller_attribute p d" for p
    by (simp add: Controller_attribute_def na)
  obtain m where m: "kernel_module (internal_state d) = Some m"
    using args by (cases "kernel_module (internal_state d)") (simp_all add: get_kernel_args_def)
  have bi: "bind_inputs env d device (annotations_INPUT annotations) Map.empty = Inr inputs"
    using args unfolding m
    by (auto simp: get_kernel_args_def split: sum.splits outcome.splits)
  have defined: "\<forall>n \<in> set ?names. inputs n \<noteq> None"
    using bind_inputs_defined[OF bi] by auto
  have all: "\<forall>n \<in> set ?names. inputs n \<noteq> None
               \<and> (\<forall>w. inputs n = Some (WarpArray w) \<longrightarrow>
                      Controller_attribute (''inputs:'' @ n) d1 \<noteq> None)"
    using defined attrs by (simp add: ca)
  from check_inputs_finds_empty[OF all empty(1) empty(2) empty(3) empty(4)[folded ca] empty(5)]
  obtain n w a where found:
      "n \<in> set ?names" "inputs n = Some (WarpArray w)" "ptr w = 0"
      "Controller_attribute (''inputs:'' @ n) d = Some a" "\<not> is_optional_for_compute a"
      "check_inputs d1 inputs ?names
         = Some (RuntimeError (''Empty value for non-optional attribute '' @ [APOS]
                   @ ''inputs:'' @ n @ [APOS] @ ''.''))"
    unfolding ca by blast
  let ?err = "RuntimeError (''Empty value for non-optional attribute '' @ [APOS]
                          @ ''inputs:'' @ n @ [APOS] @ ''.'')"
  have run: "compute env db device = Raise ?err d1"
    unfolding enter(1) using anns outs dims args found(6)
    by (simp add: compute_dispatch_def Let_def)
  have fin: "OgnKernel_compute env db
               = Return ()
                   ((log_error (format_exc env ?err)
                      (d1\<lparr>internal_state := (internal_state d1)\<lparr>is_valid := False\<rparr>\<rparr>))
                    \<lparr>wp_config_quiet := True\<rparr>)"
    using dev run by (simp add: OgnKernel_compute_def)
  have "\<exists>n w a. n \<in> set ?names \<and> inputs n = Some (WarpArray w) \<and> ptr w = 0
            \<and> Controller_attribute (''inputs:'' @ n) d = Some a \<and> \<not> is_optional_for_compute a
            \<and> compute env db device
                = Raise (RuntimeError (''Empty value for non-optional attribute '' @ [APOS]
                           @ ''inputs:'' @ n @ [APOS] @ ''.'')) d1
            \<and> logged (outcome_db (OgnKernel_compute env db))
                = logged d
                  @ [format_exc env
                       (RuntimeError (''Empty value for non-optional attribute '' @ [APOS]
                          @ ''inputs:'' @ n @ [APOS] @ ''.''))]"
    using found(1-5) run unfolding fin
    by (intro exI[of _ n] exI[of _ w] exI[of _ a]) (simp add: log_error_def lg)
  then show ?thesis
    unfolding fin by (simp add: log_error_def ist lau)
qed

text \<open>
  The valid node whose input \<open>a\<close> is an empty array, once after an attribute was added
  (nothing is compiled) and once after an attribute was removed (the unchanged code is
  compiled again, with success, before the dispatch): in both runs the entry point
  returns, the traceback is the one log entry, nothing is launched, the module stays
  and the state is no longer valid.
\<close>

theorem empty_required_input_invalidates_witness:
  "resolve_device example_env empty_input_db = Inr cpu
   \<and> is_valid (internal_state empty_input_db)
   \<and> needs_initialization example_env
         (empty_input_db\<lparr>dynamic_attribute_on_gpu := is_cuda cpu\<rparr>) True = Inr False
   \<and> get_kernel_args example_env
         (empty_input_db\<lparr>dynamic_attribute_on_gpu := is_cuda cpu\<rparr>)
         (kernel_module (internal_state empty_input_db))
         \<lparr>annotations_INPUT = [(''a'', ArrayAnn ''float32'' 1)],
          annotations_OUTPUT = [(''b'', ArrayAnn ''float32'' 1)]\<rparr> [4] cpu
       = Return ([''a'' \<mapsto> WarpArray \<lparr>ptr = 0, len = 0, dtype = ''float32''\<rparr>],
                 [''b'' \<mapsto> WarpArray \<lparr>ptr = 8192, len = 0, dtype = ''float32''\<rparr>])
           (empty_input_db\<lparr>dynamic_attribute_on_gpu := is_cuda cpu,
                           outputs_sizes := [''b_size'' \<mapsto> 4]\<rparr>)
   \<and> Controller_attribute (''inputs:'' @ ''a'') empty_input_db = Some attr_a
   \<and> \<not> is_optional_for_compute attr_a
   \<and> raised (OgnKernel_compute example_env empty_input_db) = None
   \<and> logged (outcome_db (OgnKernel_compute example_env empty_input_db))
       = [''Traceback (most recent call last)'']
   \<and> \<not> is_valid (internal_state (outcome_db (OgnKernel_compute example_env empty_input_db)))
   \<and> kernel_module (internal_state (outcome_db (OgnKernel_compute example_env empty_input_db)))
       = Some stored_module
   \<and> launches (outcome_db (OgnKernel_compute example_env empty_input_db)) = []
   \<and> needs_initialization example_env
         (removed_empty_input_db\<lparr>dynamic_attribute_on_gpu := is_cuda cpu\<rparr>) True = Inr True
   \<and> initialize example_env (removed_empty_input_db\<lparr>dynamic_attribute_on_gpu := is_cuda cpu\<rparr>)
       = Return True
           ((loaded (removed_empty_input_db\<lparr>dynamic_attribute_on_gpu := is_cuda cpu\<rparr>)
               ''warp-kernelnode-851d3303e48d4c2e'')\<lparr>internal_state := valid_state\<rparr>)
   \<and> raised (OgnKernel_compute example_env removed_empty_input_db) = None
   \<and> logged (outcome_db (OgnKernel_compute example_env removed_empty_input_db))
       = [''Traceback (most recent call last)'']
   \<and> \<not> is_valid (internal_state
          (outcome_db (OgnKernel_compute example_env removed_empty_input_db)))
   \<and> kernel_module (internal_state
          (outcome_db (OgnKernel_compute example_env removed_empty_input_db)))
       = Some stored_module
   \<and> launches (outcome_db (OgnKernel_compute example_env removed_empty_input_db)) = []"
proof -
  let ?E = "example_env"
  let ?anns = "\<lparr>annotations_INPUT = [(''a'', ArrayAnn ''float32'' 1)],
                annotations_OUTPUT = [(''b'', ArrayAnn ''float32'' 1)]\<rparr>"
  let ?inputs = "[''a'' \<mapsto> WarpArray \<lparr>ptr = 0, len = 0, dtype = ''float32''\<rparr>]"
  let ?outputs = "[''b'' \<mapsto> WarpArray \<lparr>ptr = 8192, len = 0, dtype = ''float32''\<rparr>]"
  let ?d = "empty_input_db\<lparr>dynamic_attribute_on_gpu := is_cuda cpu\<rparr>"
  let ?pre = "removed_empty_input_db\<lparr>dynamic_attribute_on_gpu := is_cuda cpu\<rparr>"
  let ?r = "(loaded ?pre ''warp-kernelnode-851d3303e48d4c2e'')\<lparr>internal_state := valid_state\<rparr>"
  have stopped: "timeline_is_stopped ?E = True"
    by (simp add: example_defs)
  have dev: "resolve_device ?E empty_input_db = Inr cpu"
            "resolve_device ?E removed_empty_input_db = Inr cpu"
    by (simp_all add: resolve_device_def example_defs)
  have noneed: "needs_initialization ?E ?d (timeline_is_stopped ?E) = Inr False"
    by (simp add: needs_initialization_def example_defs)
  have need: "needs_initialization ?E ?pre (timeline_is_stopped ?E) = Inr True"
    by (simp add: needs_initialization_def example_defs)
  have ini: "initialize ?E ?pre = Return True ?r"
    by (simp add: initialize_def initialize_validate_def invalid_attrs_def attr_names_def
          load_defs example_defs)
  have rv: "?r = ?r\<lparr>internal_state := (internal_state ?r)\<lparr>is_valid := True\<rparr>\<rparr>"
    by (simp add: valid_state_def)
  have entry1: "needs_initialization ?E ?d (timeline_is_stopped ?E) = Inr False \<and> ?d = ?d
                \<or> needs_initialization ?E ?d (timeline_is_stopped ?E) = Inr True
                  \<and> (\<exists>db1. initialize ?E ?d = Return True db1
                          \<and> ?d = db1\<lparr>internal_state := (internal_state db1)\<lparr>is_valid := True\<rparr>\<rparr>)"
    using noneed by simp
  have entry2: "needs_initialization ?E ?pre (timeline_is_stopped ?E) = Inr False \<and> ?r = ?pre
                \<or> needs_initialization ?E ?pre (timeline_is_stopped ?E) = Inr True
                  \<and> (\<exists>db1. initialize ?E ?pre = Return True db1
                          \<and> ?r = db1\<lparr>internal_state := (internal_state db1)\<lparr>is_valid := True\<rparr>\<rparr>)"
    using need ini rv by (intro disjI2 conjI exI[of _ ?r]) simp_all
  have valid: "is_valid (internal_state ?d)" "is_valid (internal_state ?r)"
              "is_valid (internal_state empty_input_db)"
    by (simp_all add: example_defs)
  have anns: "kernel_annotations (internal_state ?d) = Some ?anns"
             "kernel_annotations (internal_state ?r) = Some ?anns"
    by (simp_all add: example_defs)
  have outs: "annotations_OUTPUT ?anns \<noteq> []"
    by simp
  have dims: "read_dims (inputs_dim ?d)
                [0 ..< nat (min (max (inputs_dimCount ?d) 1) (MAX_DIMENSIONS ?E))] = Inr [4]"
             "read_dims (inputs_dim ?r)
                [0 ..< nat (min (max (inputs_dimCount ?r) 1) (MAX_DIMENSIONS ?E))] = Inr [4]"
    by (simp_all add: example_defs)
  have args1: "get_kernel_args ?E ?d (kernel_module (internal_state ?d)) ?anns [4] cpu
       = Return (?inputs, ?outputs) (?d\<lparr>outputs_sizes := [''b_size'' \<mapsto> 4]\<rparr>)"
    by (simp add: get_kernel_args_def output_size_def reduce_mul_def
          cast_array_to_warp_type_def example_defs)
  have args2: "get_kernel_args ?E ?r (kernel_module (internal_state ?r)) ?anns [4] cpu
       = Return (?inputs, ?outputs) (?r\<lparr>outputs_sizes := [''b_size'' \<mapsto> 4]\<rparr>)"
    by (simp add: get_kernel_args_def output_size_def reduce_mul_def
          cast_array_to_warp_type_def example_defs)
  have ca: "Controller_attribute (''inputs:'' @ ''a'') ?d = Some attr_a"
           "Controller_attribute (''inputs:'' @ ''a'') ?r = Some attr_a"
           "Controller_attribute (''inputs:'' @ ''a'') empty_input_db = Some attr_a"
    by (simp_all add: Controller_attribute_def example_defs)
  have attrs1: "\<forall>n \<in> set (map fst (annotations_INPUT ?anns)).
                 \<forall>w. ?inputs n = Some (WarpArray w) \<longrightarrow>
                   Controller_attribute (''inputs:'' @ n) ?d \<noteq> None"
    using ca(1) by simp
  have attrs2: "\<forall>n \<in> set (map fst (annotations_INPUT ?anns)).
                 \<forall>w. ?inputs n = Some (WarpArray w) \<longrightarrow>
                   Controller_attribute (''inputs:'' @ n) ?r \<noteq> None"
    using ca(2) by simp
  have empty: "''a'' \<in> set (map fst (annotations_INPUT ?anns))"
              "?inputs ''a'' = Some (WarpArray \<lparr>ptr = 0, len = 0, dtype = ''float32''\<rparr>)"
              "ptr \<lparr>ptr = 0, len = 0, dtype = ''float32''\<rparr> = 0"
              "\<not> is_optional_for_compute attr_a"
    by (simp_all add: attr_a_def)
  have before: "kernel_module (internal_state ?d) = Some stored_module"
               "kernel_module (internal_state ?r) = Some stored_module"
               "kernel_module (internal_state empty_input_db) = Some stored_module"
               "launches empty_input_db = []" "launches removed_empty_input_db = []"
               "logged ?d = []" "logged ?r = []"
               "format_exc ?E = (\<lambda>e. ''Traceback (most recent call last)'')"
    by (simp_all add: example_defs)
  note t1 = empty_required_input_invalidates
              [OF dev(1) entry1 valid(1) anns(1) outs dims(1) args1 attrs1
                  empty(1) empty(2) empty(3) ca(1) empty(4)]
  note t2 = empty_required_input_invalidates
              [OF dev(2) entry2 valid(2) anns(2) outs dims(2) args2 attrs2
                  empty(1) empty(2) empty(3) ca(2) empty(4)]
  have l1: "logged (outcome_db (OgnKernel_compute ?E empty_input_db))
              = [''Traceback (most recent call last)'']"
    using t1 before(6,8) by auto
  have l2: "logged (outcome_db (OgnKernel_compute ?E removed_empty_input_db))
              = [''Traceback (most recent call last)'']"
    using t2 before(7,8) by auto
  show ?thesis
    using t1[THEN conjunct2] t2[THEN conjunct2] l1 l2 dev noneed need ini args1 ca(3) empty(4)
          valid(3) before(1-5) stopped
    by simp
qed

text \<open>
  C2 as stated fails on the same node: the state is valid before the invocation, the
  inner \<open>compute\<close> raises the error for \<open>inputs:a\<close>, and the validity flag is cleared
  afterwards.
\<close>

theorem empty_required_input_counterexample:
  "is_valid (internal_state empty_input_db)
   \<and> raised (compute example_env empty_input_db cpu)
       = Some (RuntimeError (''Empty value for non-optional attribute '' @ [APOS] @ ''inputs:a''
                 @ [APOS] @ ''.''))
   \<and> \<not> is_valid (internal_state
          (outcome_db (OgnKernel_compute example_env empty_input_db)))"
  by (simp add: OgnKernel_compute_def resolve_device_def compute_def needs_initialization_def
        compute_dispatch_def get_kernel_args_def output_size_def reduce_mul_def
        cast_array_to_warp_type_def Controller_attribute_def log_error_def example_defs)

section \<open>Two invocations with the same parameters\<close>

text \<open>
  \<open>initialize\<close> caches the dimension count, the code provider, the code text and the file
  path, and not the modification time of the file: no step of an invocation writes
  \<open>code_file_timestamp\<close>, which \<open>needs_initialization\<close> compares with the time of the
  file. With the time stamp still unset, a call in file mode that checks the
  modification time always asks for a compilation.
\<close>

lemma needs_initialization_file_without_timestamp:
  assumes "code_file_timestamp (internal_state db) = None"
      and "inputs_codeProvider db = ''file''"
      and "getmtime env (inputs_codeFile db) = Some t"
  shows "needs_initialization env db True = Inr True"
  using assms by (auto simp: needs_initialization_def Let_def split: option.splits)

lemma initialize_validate_keeps_timestamp:
  "code_file_timestamp (internal_state (outcome_db (initialize_validate attrs m db)))
     = code_file_timestamp (internal_state db)"
  by (simp add: initialize_validate_def log_error_def Let_def split: option.splits)

lemma initialize_keeps_timestamp:
  "code_file_timestamp (internal_state (outcome_db (initialize env db)))
     = code_file_timestamp (internal_state db)"
proof (cases "initialize_load env db")
  case (Raise e d)
  then show ?thesis
    using initialize_load_internal_state[of env db] by (simp add: initialize_def)
next
  case (Return m d)
  then show ?thesis
    using initialize_load_internal_state[of env db]
          initialize_validate_keeps_timestamp[of "filter is_dynamic (node_attributes db)" m d]
    by (simp add: initialize_after_load[OF Return])
qed

lemma compute_keeps_timestamp:
  "code_file_timestamp (internal_state (outcome_db (compute env db device)))
     = code_file_timestamp (internal_state db)"
proof -
  let ?db0 = "db\<lparr>dynamic_attribute_on_gpu := is_cuda device\<rparr>"
  have cd: "internal_state (outcome_db (compute_dispatch env d device)) = internal_state d" for d
    by (rule compute_dispatch_preserves) simp_all
  have ini: "code_file_timestamp (internal_state (outcome_db (initialize env ?db0)))
               = code_file_timestamp (internal_state db)"
    using initialize_keeps_timestamp[of env ?db0] by simp
  show ?thesis
  proof (cases "initialize env ?db0")
    case (Raise e d)
    then show ?thesis using ini
      by (simp add: compute_def Let_def cd split: sum.splits)
  next
    case (Return ok d)
    then show ?thesis using ini
      by (simp add: compute_def Let_def cd split: sum.splits)
  qed
qed

lemma OgnKernel_compute_keeps_timestamp:
  "code_file_timestamp (internal_state (outcome_db (OgnKernel_compute env db)))
     = code_file_timestamp (internal_state db)"
proof (cases "resolve_device env db")
  case (Inl e)
  then show ?thesis by (simp add: OgnKernel_compute_def)
next
  case (Inr device)
  show ?thesis
    using OgnKernel_compute_internal_state[OF Inr] compute_keeps_timestamp[of env db device]
    by simp
qed

lemma OgnKernel_compute_frame:
  assumes st: "\<And>d s. g (d\<lparr>internal_state := s\<rparr>) = g d"
      and tf: "\<And>d s. g (d\<lparr>tmp_files := s\<rparr>) = g d"
      and co: "\<And>d s. g (d\<lparr>compilations := s\<rparr>) = g d"
      and lg: "\<And>d s. g (d\<lparr>logged := s\<rparr>) = g d"
      and sizes: "\<And>d s. g (d\<lparr>outputs_sizes := s\<rparr>) = g d"
      and attrs: "\<And>d s. g (d\<lparr>outputs_attrs := s\<rparr>) = g d"
      and launches: "\<And>d s. g (d\<lparr>launches := s\<rparr>) = g d"
      and gpu: "\<And>d s. g (d\<lparr>dynamic_attribute_on_gpu := s\<rparr>) = g d"
      and quiet: "\<And>d s. g (d\<lparr>wp_config_quiet := s\<rparr>) = g d"
      and ev: "\<And>d s. g (d\<lparr>state_userAttrsEvent := s\<rparr>) = g d"
      and ex: "\<And>d s. g (d\<lparr>outputs_execOut := s\<rparr>) = g d"
  shows "g (outcome_db (OgnKernel_compute env db)) = g db"
proof (cases "resolve_device env db")
  case (Inl e)
  then show ?thesis by (simp add: OgnKernel_compute_def)
next
  case (Inr device)
  have "g (outcome_db (OgnKernel_compute env db)) = g (outcome_db (compute env db device))"
    by (rule OgnKernel_compute_preserves[OF Inr st lg quiet ev ex])
  also have "\<dots> = g db"
    by (rule compute_preserves[OF st tf co lg sizes attrs launches gpu])
  finally show ?thesis .
qed

text \<open>
  So, in file mode, the call that follows any invocation of a node whose time stamp is
  unset asks for a compilation again whenever it checks the modification time.
\<close>

lemma file_mode_next_call_compiles:
  assumes "code_file_timestamp (internal_state db) = None"
      and "inputs_codeProvider db = ''file''"
      and "getmtime env' (inputs_codeFile db) = Some t"
  shows "needs_initialization env' (outcome_db (OgnKernel_compute env db)) True = Inr True"
proof -
  let ?R = "outcome_db (OgnKernel_compute env db)"
  have "inputs_codeProvider ?R = inputs_codeProvider db"
    by (rule OgnKernel_compute_frame) simp_all
  moreover have "inputs_codeFile ?R = inputs_codeFile db"
    by (rule OgnKernel_compute_frame) simp_all
  moreover have "code_file_timestamp (internal_state ?R) = None"
    using OgnKernel_compute_keeps_timestamp[of env db] assms(1) by simp
  ultimately show ?thesis
    using assms(2,3) by (intro needs_initialization_file_without_timestamp) simp_all
qed

text \<open>
  In embedded mode the second of two invocations compiles nothing: after any invocation
  without a pending event, on a state that holds a module whenever it is valid (as
  every state reached from \<open>InternalState_init\<close> does), the tracker asks for no
  compilation.
\<close>

lemma initialize_success_internal_state:
  assumes "initialize env db = Return True d"
  shows "\<exists>m a. internal_state d
           = (internal_state db)\<lparr>dim_count := Some (inputs_dimCount db),
                                  code_provider := Some (inputs_codeProvider db),
                                  code_str := Some (inputs_codeStr db),
                                  code_file := Some (inputs_codeFile db),
                                  kernel_module := Some m,
                                  kernel_annotations := Some a\<rparr>"
proof -
  from assms obtain m d2 where load: "initialize_load env db = Return m d2"
    by (auto simp: initialize_def split: outcome.splits)
  have st: "internal_state d2
           = (internal_state db)\<lparr>dim_count := Some (inputs_dimCount db),
                                  code_provider := Some (inputs_codeProvider db),
                                  code_str := Some (inputs_codeStr db),
                                  code_file := Some (inputs_codeFile db)\<rparr>"
    using initialize_load_internal_state[of env db] load by simp
  from initialize_after_load[OF load] assms
  have "initialize_validate (filter is_dynamic (node_attributes db)) m d2 = Return True d"
    by simp
  then have "internal_state d
           = (internal_state d2)\<lparr>kernel_module := Some (m\<lparr>enable_backward := False\<rparr>),
                 kernel_annotations := Some \<lparr>annotations_INPUT = Inputs_cls m,
                                             annotations_OUTPUT = Outputs_cls m\<rparr>\<rparr>"
    by (auto simp: initialize_validate_def log_error_def Let_def split: option.splits if_splits)
  then show ?thesis
    unfolding st by blast
qed

lemma embedded_compute_up_to_date:
  assumes prov: "inputs_codeProvider db = ''embedded''"
      and ev: "state_userAttrsEvent db = NONE"
      and inv: "is_valid (internal_state db) \<longrightarrow>
                  kernel_module (internal_state db) \<noteq> None
                  \<and> kernel_annotations (internal_state db) \<noteq> None"
  shows "dim_count (internal_state (outcome_db (compute env db device))) = Some (inputs_dimCount db)
       \<and> code_provider (internal_state (outcome_db (compute env db device))) = Some ''embedded''
       \<and> code_str (internal_state (outcome_db (compute env db device))) = Some (inputs_codeStr db)
       \<and> (is_valid (internal_state (outcome_db (compute env db device))) \<longrightarrow>
            kernel_module (internal_state (outcome_db (compute env db device))) \<noteq> None
            \<and> kernel_annotations (internal_state (outcome_db (compute env db device))) \<noteq> None)"
proof -
  let ?db0 = "db\<lparr>dynamic_attribute_on_gpu := is_cuda device\<rparr>"
  have cd: "internal_state (outcome_db (compute_dispatch env d device)) = internal_state d" for d
    by (rule compute_dispatch_preserves) simp_all
  have "needs_initialization env ?db0 (timeline_is_stopped env) = Inr True
        \<or> needs_initialization env ?db0 (timeline_is_stopped env) = Inr False"
    using prov by (simp add: needs_initialization_def Let_def)
  then obtain need where need: "needs_initialization env ?db0 (timeline_is_stopped env) = Inr need"
    by blast
  show ?thesis
  proof (cases need)
    case False
    have run: "outcome_db (compute env db device) = outcome_db (compute_dispatch env ?db0 device)"
      using need False by (simp add: compute_def Let_def)
    have "dim_count (internal_state db) = Some (inputs_dimCount db)
          \<and> code_provider (internal_state db) = Some ''embedded''
          \<and> code_str (internal_state db) = Some (inputs_codeStr db)"
      using need False prov
      by (auto simp: needs_initialization_def Let_def split: if_splits)
    then show ?thesis
      using inv by (simp add: run cd)
  next
    case True
    show ?thesis
    proof (cases "initialize env ?db0")
      case (Raise e d)
      then have fail: "returned (initialize env ?db0) \<noteq> Some True" by simp
      have "outcome_db (compute env db device) = d"
        using need True Raise by (simp add: compute_def Let_def)
      then show ?thesis
        using initialize_failure_internal_state[OF fail] Raise inv prov by simp
    next
      case (Return ok d)
      show ?thesis
      proof (cases ok)
        case False
        then have fail: "returned (initialize env ?db0) \<noteq> Some True" using Return by simp
        have "outcome_db (compute env db device) = d"
          using need True Return False by (simp add: compute_def Let_def)
        then show ?thesis
          using initialize_failure_internal_state[OF fail] Return inv prov by simp
      next
        case ok: True
        have ret: "initialize env ?db0 = Return True d"
          using Return ok by simp
        from initialize_success_internal_state[OF ret] obtain m a where
          st: "internal_state d
                 = (internal_state ?db0)\<lparr>dim_count := Some (inputs_dimCount ?db0),
                                  code_provider := Some (inputs_codeProvider ?db0),
                                  code_str := Some (inputs_codeStr ?db0),
                                  code_file := Some (inputs_codeFile ?db0),
                                  kernel_module := Some m,
                                  kernel_annotations := Some a\<rparr>"
          by blast
        have "outcome_db (compute env db device)
                = outcome_db (compute_dispatch env
                    (d\<lparr>internal_state := (internal_state d)\<lparr>is_valid := True\<rparr>\<rparr>) device)"
          using need True Return ok by (simp add: compute_def Let_def)
        then show ?thesis
          using prov by (simp add: cd st)
      qed
    qed
  qed
qed

lemma embedded_next_call_does_not_compile:
  assumes prov: "inputs_codeProvider db = ''embedded''"
      and ev: "state_userAttrsEvent db = NONE"
      and inv: "is_valid (internal_state db) \<longrightarrow>
                  kernel_module (internal_state db) \<noteq> None
                  \<and> kernel_annotations (internal_state db) \<noteq> None"
      and dev: "resolve_device env db = Inr device"
  shows "needs_initialization env' (outcome_db (OgnKernel_compute env db)) chk = Inr False"
proof -
  let ?R = "outcome_db (OgnKernel_compute env db)"
  have p: "inputs_codeProvider ?R = ''embedded''"
    using OgnKernel_compute_frame[of inputs_codeProvider env db] prov by simp
  have c: "inputs_codeStr ?R = inputs_codeStr db"
    by (rule OgnKernel_compute_frame) simp_all
  have n: "inputs_dimCount ?R = inputs_dimCount db"
    by (rule OgnKernel_compute_frame) simp_all
  have e: "state_userAttrsEvent ?R = NONE"
  proof (cases "compute env db device")
    case (Raise x d)
    have "state_userAttrsEvent d = state_userAttrsEvent db"
      using compute_keeps_event[of env db device] Raise by simp
    then show ?thesis
      using dev Raise ev by (simp add: OgnKernel_compute_def log_error_def)
  next
    case (Return u d)
    then show ?thesis
      using dev by (simp add: OgnKernel_compute_def)
  qed
  note st = OgnKernel_compute_internal_state[OF dev]
  note up = embedded_compute_up_to_date[OF prov ev inv, of env device]
  have "dim_count (internal_state ?R) = Some (inputs_dimCount db)
       \<and> code_provider (internal_state ?R) = Some ''embedded''
       \<and> code_str (internal_state ?R) = Some (inputs_codeStr db)
       \<and> (is_valid (internal_state ?R) \<longrightarrow>
            kernel_module (internal_state ?R) \<noteq> None
            \<and> kernel_annotations (internal_state ?R) \<noteq> None)"
    using up unfolding st by simp
  then show ?thesis
    using p c n e by (auto simp: needs_initialization_def Let_def NONE_def)
qed

lemma needs_initialization_ignores_memory_location:
  "needs_initialization env (db\<lparr>dynamic_attribute_on_gpu := b\<rparr>) chk
     = needs_initialization env db chk"
  by (simp add: needs_initialization_def Let_def split: option.splits)

lemma no_compilation_without_initialization:
  assumes "needs_initialization env db (timeline_is_stopped env) = Inr False"
  shows "compilations (outcome_db (OgnKernel_compute env db)) = compilations db"
proof (cases "resolve_device env db")
  case (Inl e)
  then show ?thesis by (simp add: OgnKernel_compute_def)
next
  case (Inr device)
  let ?db0 = "db\<lparr>dynamic_attribute_on_gpu := is_cuda device\<rparr>"
  have "compilations (outcome_db (OgnKernel_compute env db))
          = compilations (outcome_db (compute env db device))"
    by (rule OgnKernel_compute_preserves[OF Inr]) simp_all
  also have "\<dots> = compilations (outcome_db (compute_dispatch env ?db0 device))"
    using assms by (simp add: compute_def Let_def needs_initialization_ignores_memory_location)
  also have "\<dots> = compilations ?db0"
    by (rule compute_dispatch_preserves) simp_all
  finally show ?thesis by simp
qed

lemma embedded_second_call_compiles_nothing:
  assumes "inputs_codeProvider db = ''embedded''"
      and "state_userAttrsEvent db = NONE"
      and "is_valid (internal_state db) \<longrightarrow>
             kernel_module (internal_state db) \<noteq> None
             \<and> kernel_annotations (internal_state db) \<noteq> None"
      and "resolve_device env db = Inr device"
  shows "compilations (outcome_db (OgnKernel_compute env' (outcome_db (OgnKernel_compute env db))))
           = compilations (outcome_db (OgnKernel_compute env db))"
  by (rule no_compilation_without_initialization)
     (rule embedded_next_call_does_not_compile[OF assms])

lemmas run_defs = OgnKernel_compute_def resolve_device_def compute_def needs_initialization_def
  initialize_def initialize_validate_def invalid_attrs_def attr_names_def log_error_def
  compute_dispatch_def get_kernel_args_def output_size_def reduce_mul_def
  cast_array_to_warp_type_def write_output_attrs_def Controller_attribute_def

text \<open>
  C3 on the code. Two consecutive invocations of the fresh node, with the same
  parameters and no event, the timeline stopped: with the code in the file \<open>kernel.py\<close>
  the loader runs in both invocations; with the same code embedded it runs in the first
  one only.
\<close>

theorem file_mode_compiles_twice:
  "compilations
     (outcome_db (OgnKernel_compute example_env
        (outcome_db (OgnKernel_compute example_env fresh_file_db))))
   = [''warp-kernelnode-851d3303e48d4c2e'', ''warp-kernelnode-851d3303e48d4c2e'']
   \<and> compilations
     (outcome_db (OgnKernel_compute example_env
        (outcome_db (OgnKernel_compute example_env fresh_db))))
   = [''warp-kernelnode-851d3303e48d4c2e'']"
  by (simp add: run_defs load_defs example_defs)

text \<open>
  C4 on the code. The fresh node with its code in the file \<open>kernel.py\<close>, after one
  invocation with the timeline stopped: the state is valid, holds the module and its
  annotations, and caches the dimension count, the code provider and the file path of
  the call; the file has not changed. Yet the time stamp is unset, and the tracker asks
  for a compilation when there is no event and when the event has only the added flag.
  With the same code embedded, an event with only the added flag asks for none.
\<close>

theorem added_event_recompiles_in_file_mode:
  "is_valid (internal_state (outcome_db (OgnKernel_compute example_env fresh_file_db)))
   \<and> kernel_module (internal_state (outcome_db (OgnKernel_compute example_env fresh_file_db)))
       = Some stored_module
   \<and> kernel_annotations (internal_state (outcome_db (OgnKernel_compute example_env fresh_file_db)))
       = Some \<lparr>annotations_INPUT = [(''a'', ArrayAnn ''float32'' 1)],
               annotations_OUTPUT = [(''b'', ArrayAnn ''float32'' 1)]\<rparr>
   \<and> dim_count (internal_state (outcome_db (OgnKernel_compute example_env fresh_file_db)))
       = Some (inputs_dimCount (outcome_db (OgnKernel_compute example_env fresh_file_db)))
   \<and> code_provider (internal_state (outcome_db (OgnKernel_compute example_env fresh_file_db)))
       = Some (inputs_codeProvider (outcome_db (OgnKernel_compute example_env fresh_file_db)))
   \<and> inputs_codeProvider (outcome_db (OgnKernel_compute example_env fresh_file_db)) = ''file''
   \<and> code_file (internal_state (outcome_db (OgnKernel_compute example_env fresh_file_db)))
       = Some (inputs_codeFile (outcome_db (OgnKernel_compute example_env fresh_file_db)))
   \<and> code_file_timestamp
         (internal_state (outcome_db (OgnKernel_compute example_env fresh_file_db))) = None
   \<and> getmtime example_env
         (inputs_codeFile (outcome_db (OgnKernel_compute example_env fresh_file_db)))
       = Some 1700000000
   \<and> state_userAttrsEvent (outcome_db (OgnKernel_compute example_env fresh_file_db)) = NONE
   \<and> needs_initialization example_env
         (outcome_db (OgnKernel_compute example_env fresh_file_db)) True = Inr True
   \<and> needs_initialization example_env
         ((outcome_db (OgnKernel_compute example_env fresh_file_db))
            \<lparr>state_userAttrsEvent := \<lparr>CREATED = True, REMOVED = False\<rparr>\<rparr>) True = Inr True
   \<and> needs_initialization example_env
         ((outcome_db (OgnKernel_compute example_env fresh_db))
            \<lparr>state_userAttrsEvent := \<lparr>CREATED = True, REMOVED = False\<rparr>\<rparr>) True = Inr False"
  by (simp add: run_defs load_defs example_defs)

section \<open>The name of the compiled module\<close>

lemma header_params_by_port:
  assumes "header_params tbl attrs params = Inr p"
  shows "p port =
           (if \<exists>a \<in> set attrs. get_port_type a = port
            then Some ((case params port of None \<Rightarrow> [] | Some items \<Rightarrow> items)
                       @ map (\<lambda>a. (split_last (get_name a), the (tbl (get_type_name a))))
                           (filter (\<lambda>a. get_port_type a = port) attrs))
            else params port)"
  using assms
proof (induction attrs arbitrary: params)
  case Nil
  then show ?case by simp
next
  case (Cons a attrs)
  from Cons.prems obtain t where t: "tbl (get_type_name a) = Some t"
    by (cases "tbl (get_type_name a)") simp_all
  let ?params = "params(get_port_type a \<mapsto>
               (case params (get_port_type a) of None \<Rightarrow> [] | Some items \<Rightarrow> items)
               @ [(split_last (get_name a), t)])"
  have step: "header_params tbl attrs ?params = Inr p"
    using Cons.prems t by simp
  show ?case
    using Cons.IH[OF step] t by (auto split: option.splits)
qed

text \<open>
  The schema groups the members by port type: two attribute lists with the same inputs
  in the same order and the same outputs in the same order generate the same text,
  however inputs and outputs are interleaved.
\<close>

lemma generate_header_code_by_port:
  assumes "generate_header_code env attrs = Inr header"
      and "generate_header_code env attrs' = Inr header'"
      and "filter (\<lambda>a. get_port_type a = ATTR_PORT_TYPE_INPUT) attrs
             = filter (\<lambda>a. get_port_type a = ATTR_PORT_TYPE_INPUT) attrs'"
      and "filter (\<lambda>a. get_port_type a = ATTR_PORT_TYPE_OUTPUT) attrs
             = filter (\<lambda>a. get_port_type a = ATTR_PORT_TYPE_OUTPUT) attrs'"
  shows "header = header'"
proof -
  from assms(1) obtain p where p: "header_params (ATTR_TO_WARP_TYPE env) attrs Map.empty = Inr p"
    by (auto simp: generate_header_code_def split: sum.splits)
  from assms(2) obtain p' where p': "header_params (ATTR_TO_WARP_TYPE env) attrs' Map.empty = Inr p'"
    by (auto simp: generate_header_code_def split: sum.splits)
  have ex: "(\<exists>a \<in> set xs. get_port_type a = port)
              = (filter (\<lambda>a. get_port_type a = port) xs \<noteq> [])" for xs :: "Attribute list" and port
    by (simp add: filter_empty_conv)
  have "p ATTR_PORT_TYPE_INPUT = p' ATTR_PORT_TYPE_INPUT"
    unfolding header_params_by_port[OF p] header_params_by_port[OF p'] ex assms(3) by simp
  moreover have "p ATTR_PORT_TYPE_OUTPUT = p' ATTR_PORT_TYPE_OUTPUT"
    unfolding header_params_by_port[OF p] header_params_by_port[OF p'] ex assms(4) by simp
  ultimately show ?thesis
    using assms(1,2) p p' by (simp add: generate_header_code_def Let_def)
qed

text \<open>
  The name under which the loader is called is \<open>warp-kernelnode-\<close> followed by the
  digest of the full text, schema first, a line break, then the user code; and the full
  text determines the user code. Whether two different texts get different names is a
  property of the digest, which the node takes from \<open>hashlib\<close>.
\<close>

lemma initialize_load_module_name:
  assumes "deserialize_user_attribute_descs env (state_userAttrDescs db) = None"
      and "generate_header_code env (filter is_dynamic (node_attributes db)) = Inr header"
      and "get_user_code env db = Inr user"
  shows "compilations (outcome_db (initialize_load env db))
           = compilations db
             @ [''warp-kernelnode-'' @ blake2b_hexdigest env (header @ [NL] @ user)]"
proof -
  have "get_user_code env (db\<lparr>internal_state := s\<rparr>) = get_user_code env db" for s
    by (simp add: get_user_code_def split: option.splits)
  then show ?thesis
    using assms by (simp add: initialize_load_def Let_def split: sum.splits)
qed

lemma full_text_determines_user_code:
  "(header @ [NL] @ user = header @ [NL] @ user') = (user = user')"
  by simp

lemma header_of_interleaved_attributes:
  "generate_header_code example_env [attr_a, attr_b] = Inr header_ab
   \<and> generate_header_code example_env [attr_b, attr_a] = Inr header_ab"
  by (simp add: generate_header_code_def member_line_def split_last_def example_defs)

end
